theory Spec2Isabelle
  imports Complex_Main
begin

section \<open>A single-hidden-layer network on MNIST: the numeric core of nn\_utils.py\<close>

text \<open>
  The embedding follows \<^verbatim>\<open>src/nn_utils.py\<close>. NumPy's float64 arrays are modelled
  with entries in \<^typ>\<open>real\<close>: a statement about them is about exact real arithmetic,
  without rounding, overflow to \<^verbatim>\<open>inf\<close> or \<^verbatim>\<open>nan\<close>. The three functions that call
  \<^verbatim>\<open>np.exp\<close> are modelled a second time in the range of binary64 (\<open>sigma64\<close>,
  \<open>d_sigma64\<close>, \<open>softmax_function64\<close>), where the exponential can overflow.
  A one-dimensional array is a list, a two-dimensional array carries its column count
  next to its rows (so that an array with no rows still has a shape), and every Python
  exception or \<^verbatim>\<open>sys.exit\<close> the code can reach is a value of \<open>error\<close>.
  The two random sources, \<^verbatim>\<open>np.random.randn\<close> and \<^verbatim>\<open>random.randint\<close>, are read off
  streams that the functions take as arguments, and what a function prints or plots is
  part of what it returns. Reading the data file (\<^verbatim>\<open>load_mnist\<close>) and the command line
  (\<^verbatim>\<open>parse_params\<close>) is not modelled; their results are the records \<open>mnist\<close> and \<open>params\<close>.
\<close>

subsection \<open>Errors\<close>

datatype error =
    SystemExit string
  | ValueError
  | IndexError
  | ZeroDivisionError

text \<open>
  Sequencing: the first exception raised ends the computation. \<open>ebind m f\<close> is
  ``evaluate \<open>m\<close>, and, unless it raised, go on with \<open>f\<close> on its value''.
\<close>

definition ebind :: "error + 'a \<Rightarrow> ('a \<Rightarrow> error + 'b) \<Rightarrow> error + 'b" where
  "ebind m f = (case m of Inl e \<Rightarrow> Inl e | Inr v \<Rightarrow> f v)"

subsection \<open>Arrays\<close>

type_synonym vec = "real list"

record mat =
  ncols :: nat
  rows :: "real list list"

definition nrows :: "mat \<Rightarrow> nat" where
  "nrows M = length (rows M)"

text \<open>An ndarray of shape \<open>(m, n)\<close>: \<open>m\<close> rows, each of length \<open>n\<close>.\<close>

definition is_mat :: "nat \<Rightarrow> nat \<Rightarrow> mat \<Rightarrow> bool" where
  "is_mat m n M = (length (rows M) = m \<and> ncols M = n \<and> list_all (\<lambda>r. length r = n) (rows M))"

subsection \<open>The NumPy operations the code uses\<close>

text \<open>
  Broadcasting of two axes of lengths \<open>a\<close> and \<open>c\<close>: they must agree, or one of them is 1
  and is stretched; \<open>bidx\<close> is the index read from an axis of length \<open>n\<close>.
\<close>

definition bshape :: "nat \<Rightarrow> nat \<Rightarrow> nat option" where
  "bshape a c = (if a = c then Some a else if a = 1 then Some c else if c = 1 then Some a else None)"

definition bidx :: "nat \<Rightarrow> nat \<Rightarrow> nat" where
  "bidx n i = (if n = 1 then 0 else i)"

text \<open>An elementwise binary operation on two one-dimensional arrays (\<^verbatim>\<open>a + b\<close>, \<^verbatim>\<open>np.multiply(a, b)\<close>).\<close>

definition elementwise :: "(real \<Rightarrow> real \<Rightarrow> real) \<Rightarrow> vec \<Rightarrow> vec \<Rightarrow> error + vec" where
  "elementwise f a b =
     (case bshape (length a) (length b) of
        None \<Rightarrow> Inl ValueError
      | Some n \<Rightarrow> Inr (map (\<lambda>i. f (a ! bidx (length a) i) (b ! bidx (length b) i)) [0..<n]))"

definition np_add :: "vec \<Rightarrow> vec \<Rightarrow> error + vec" where
  "np_add a b = elementwise (+) a b"

definition np_multiply :: "vec \<Rightarrow> vec \<Rightarrow> error + vec" where
  "np_multiply a b = elementwise (*) a b"

text \<open>The same on two-dimensional arrays (\<^verbatim>\<open>model['W'] + LR*model_grads['W']\<close>).\<close>

definition mat_add :: "mat \<Rightarrow> mat \<Rightarrow> error + mat" where
  "mat_add A B =
     (case bshape (nrows A) (nrows B) of
        None \<Rightarrow> Inl ValueError
      | Some m \<Rightarrow>
         (case bshape (ncols A) (ncols B) of
            None \<Rightarrow> Inl ValueError
          | Some n \<Rightarrow>
              Inr \<lparr>ncols = n,
                   rows = map (\<lambda>i. map (\<lambda>j. (rows A ! bidx (nrows A) i) ! bidx (ncols A) j
                                             + (rows B ! bidx (nrows B) i) ! bidx (ncols B) j) [0..<n])
                              [0..<m]\<rparr>))"

text \<open>A Python float times an array, and an array divided by a number.\<close>

definition scal_vec :: "real \<Rightarrow> vec \<Rightarrow> vec" where
  "scal_vec c v = map (\<lambda>a. c * a) v"

definition scal_mat :: "real \<Rightarrow> mat \<Rightarrow> mat" where
  "scal_mat c M = \<lparr>ncols = ncols M, rows = map (map (\<lambda>a. c * a)) (rows M)\<rparr>"

definition div_vec :: "vec \<Rightarrow> real \<Rightarrow> vec" where
  "div_vec v c = map (\<lambda>a. a / c) v"

definition div_mat :: "mat \<Rightarrow> real \<Rightarrow> mat" where
  "div_mat M c = \<lparr>ncols = ncols M, rows = map (map (\<lambda>a. a / c)) (rows M)\<rparr>"

text \<open>\<^verbatim>\<open>np.dot\<close> of a two-dimensional and a one-dimensional array.\<close>

definition dot :: "vec \<Rightarrow> vec \<Rightarrow> real" where
  "dot r x = sum_list (map2 (*) r x)"

definition np_dot :: "mat \<Rightarrow> vec \<Rightarrow> error + vec" where
  "np_dot M x = (if ncols M = length x then Inr (map (\<lambda>r. dot r x) (rows M)) else Inl ValueError)"

text \<open>\<^verbatim>\<open>np.outer(a, b)\<close> and \<^verbatim>\<open>np.transpose\<close> (the identity on a one-dimensional array).\<close>

definition np_outer :: "vec \<Rightarrow> vec \<Rightarrow> mat" where
  "np_outer a b = \<lparr>ncols = length b, rows = map (\<lambda>ai. map (\<lambda>bj. ai * bj) b) a\<rparr>"

definition np_transpose :: "mat \<Rightarrow> mat" where
  "np_transpose M = \<lparr>ncols = nrows M, rows = map (\<lambda>j. map (\<lambda>r. r ! j) (rows M)) [0..<ncols M]\<rparr>"

text \<open>
  \<^verbatim>\<open>np.argmax\<close>: the first index of a largest entry; it raises on an empty array.
  \<open>argmax_from bi bv i vs\<close> scans \<open>vs\<close>, whose first entry has index \<open>i\<close>, with the
  best index \<open>bi\<close> and its value \<open>bv\<close> so far.
\<close>

fun argmax_from :: "nat \<Rightarrow> real \<Rightarrow> nat \<Rightarrow> vec \<Rightarrow> nat" where
  "argmax_from bi bv i [] = bi"
| "argmax_from bi bv i (v # vs) =
     (if bv < v then argmax_from i v (Suc i) vs else argmax_from bi bv (Suc i) vs)"

definition np_argmax :: "vec \<Rightarrow> error + nat" where
  "np_argmax f = (case f of [] \<Rightarrow> Inl ValueError | v # vs \<Rightarrow> Inr (argmax_from 0 v 1 vs))"

subsection \<open>Activation functions and softmax\<close>

text \<open>\<^verbatim>\<open>sigma(z, func)\<close>, lines 119-141.\<close>

definition sigma :: "vec \<Rightarrow> string \<Rightarrow> error + vec" where
  "sigma z func =
     (if func = ''tanh'' then Inr (map tanh z)
      else if func = ''sigmoid'' then Inr (map (\<lambda>v. exp v / (1 + exp v)) z)
      else Inl (SystemExit ''Unsupported function type!''))"

text \<open>\<^verbatim>\<open>d_sigma(z, func)\<close>, lines 143-165.\<close>

definition d_sigma :: "vec \<Rightarrow> string \<Rightarrow> error + vec" where
  "d_sigma z func =
     (if func = ''tanh'' then Inr (map (\<lambda>v. 1 - (tanh v)\<^sup>2) z)
      else if func = ''sigmoid'' then
        Inr (map (\<lambda>v. exp v / (1 + exp v) * (1 - exp v / (1 + exp v))) z)
      else Inl (SystemExit ''Unsupported function type!''))"

text \<open>\<^verbatim>\<open>softmax_function(z)\<close>, lines 167-182.\<close>

definition softmax_function :: "vec \<Rightarrow> vec" where
  "softmax_function z = map (\<lambda>v. exp v / sum_list (map exp z)) z"

subsection \<open>Indexing\<close>

text \<open>
  Python indexing of a sequence of length \<open>n\<close> with an integer: a negative index counts
  from the end, and an index outside \<open>[-n, n)\<close> raises IndexError.
\<close>

definition py_index :: "nat \<Rightarrow> int \<Rightarrow> error + nat" where
  "py_index n i =
     (let j = (if i < 0 then i + int n else i)
      in if 0 \<le> j \<and> j < int n then Inr (nat j) else Inl IndexError)"

definition py_get :: "'a list \<Rightarrow> int \<Rightarrow> error + 'a" where
  "py_get xs i = ebind (py_index (length xs) i) (\<lambda>j. Inr (xs ! j))"

subsection \<open>The parameter and gradient bundles\<close>

text \<open>
  \<^verbatim>\<open>init_model\<close> builds \<^verbatim>\<open>model\<close> as a dictionary with exactly the keys
  \<^verbatim>\<open>'W'\<close>, \<^verbatim>\<open>'C'\<close>, \<^verbatim>\<open>'b1'\<close>, \<^verbatim>\<open>'b2'\<close>, and \<^verbatim>\<open>model_grads\<close> as a deep copy of it;
  no other key is ever added. The dictionary is a record with these four fields.
\<close>

record tensors =
  W :: mat
  C :: mat
  b1 :: vec
  b2 :: vec

subsection \<open>Forward and backward pass\<close>

text \<open>\<^verbatim>\<open>forward(x, model, func)\<close>, lines 184-210; it returns \<open>(Z, H, f)\<close>.\<close>

definition forward :: "vec \<Rightarrow> tensors \<Rightarrow> string \<Rightarrow> error + (vec \<times> vec \<times> vec)" where
  "forward x model func =
     ebind (np_dot (W model) x) (\<lambda>Wx.
     ebind (np_add Wx (b1 model)) (\<lambda>Z.
     ebind (sigma Z func) (\<lambda>H.
     ebind (np_dot (C model) H) (\<lambda>CH.
     ebind (np_add CH (b2 model)) (\<lambda>U.
     Inr (Z, H, softmax_function U))))))"

text \<open>
  \<^verbatim>\<open>backprop(x, y, f, Z, H, model, model_grads, func)\<close>, lines 212-252. The four
  assignments to \<^verbatim>\<open>model_grads\<close> are the record update; the updated bundle is returned.
\<close>

definition backprop ::
  "vec \<Rightarrow> int \<Rightarrow> vec \<Rightarrow> vec \<Rightarrow> vec \<Rightarrow> tensors \<Rightarrow> tensors \<Rightarrow> string \<Rightarrow> error + tensors" where
  "backprop x y f Z H model model_grads func =
     (let dU0 = map (\<lambda>v. (- 1) * v) f in
      ebind (py_index (length dU0) y) (\<lambda>j.
      let dU = dU0[j := dU0 ! j + 1];
          db2 = dU;
          dC = np_outer dU H in
      ebind (np_dot (np_transpose (C model)) dU) (\<lambda>delta.
      ebind (d_sigma Z func) (\<lambda>dZZ.
      ebind (np_multiply delta dZZ) (\<lambda>db1.
      let dW = np_outer db1 x in
      Inr (model_grads\<lparr>W := dW, C := dC, b1 := db1, b2 := db2\<rparr>))))))"

subsection \<open>Hyperparameters, data and model construction\<close>

text \<open>
  The namespace returned by \<^verbatim>\<open>parse_params\<close>; \<open>sigma_arg\<close> is \<^verbatim>\<open>params.sigma\<close>
  (any string is accepted by the parser). The dictionary returned by \<^verbatim>\<open>load_mnist\<close>.
\<close>

record params =
  lr :: real
  decay :: real
  interval :: int
  n_epochs :: int
  n_h :: int
  sigma_arg :: string

record mnist =
  x_train :: mat
  y_train :: "int list"
  x_test :: mat
  y_test :: "int list"
  n_train :: nat
  n_test :: nat
  n_input :: nat
  n_output :: nat

text \<open>
  \<^verbatim>\<open>init_model(mnist, params)\<close>, lines 93-117. The standard normal draws of
  \<^verbatim>\<open>np.random.randn\<close> are the stream \<open>g\<close>, read in the order of the four calls;
  \<^verbatim>\<open>randn\<close> raises ValueError on a negative dimension, and \<^verbatim>\<open>copy.deepcopy\<close> of a
  value is the value. (Where NumPy divides by \<^verbatim>\<open>np.sqrt(0)\<close> it produces \<^verbatim>\<open>inf\<close> or
  \<^verbatim>\<open>nan\<close>; the real division here gives 0.)
\<close>

definition randn2 :: "(nat \<Rightarrow> real) \<Rightarrow> nat \<Rightarrow> nat \<Rightarrow> nat \<Rightarrow> mat" where
  "randn2 g off m n = \<lparr>ncols = n, rows = map (\<lambda>i. map (\<lambda>j. g (off + i * n + j)) [0..<n]) [0..<m]\<rparr>"

definition randn1 :: "(nat \<Rightarrow> real) \<Rightarrow> nat \<Rightarrow> nat \<Rightarrow> vec" where
  "randn1 g off n = map (\<lambda>j. g (off + j)) [0..<n]"

definition init_model :: "(nat \<Rightarrow> real) \<Rightarrow> mnist \<Rightarrow> params \<Rightarrow> error + (tensors \<times> tensors)" where
  "init_model g mn ps =
     (if n_h ps < 0 then Inl ValueError
      else
        let h = nat (n_h ps); d = n_input mn; k = n_output mn;
            o1 = h * d; o2 = o1 + k * h; o3 = o2 + h;
            model = \<lparr>W = div_mat (randn2 g 0 h d) (sqrt (real d)),
                     C = div_mat (randn2 g o1 k h) (sqrt (real h)),
                     b1 = div_vec (randn1 g o2 h) (sqrt (real h)),
                     b2 = div_vec (randn1 g o3 k) (sqrt (real k))\<rparr>;
            model_grads = model
        in Inr (model, model_grads))"

subsection \<open>Training\<close>

text \<open>
  \<^verbatim>\<open>random.randint(a, b)\<close>: an integer of \<open>[a, b]\<close>, here read off one number \<open>r\<close> of an
  entropy stream; it raises ValueError on an empty range.
\<close>

definition randint :: "nat \<Rightarrow> int \<Rightarrow> int \<Rightarrow> error + int" where
  "randint r a b = (if b < a then Inl ValueError else Inr (a + int r mod (b - a + 1)))"

text \<open>
  The variables of \<^verbatim>\<open>nn_train\<close> that its loops change: the two dictionaries,
  \<^verbatim>\<open>LR\<close>, \<^verbatim>\<open>total_correct\<close>, the number of \<^verbatim>\<open>randint\<close> calls made so far, and the
  lines printed (epoch index and accuracy).
\<close>

record train_state =
  st_model :: tensors
  st_grads :: tensors
  st_LR :: real
  st_correct :: nat
  st_draws :: nat
  st_out :: "(nat \<times> real) list"

text \<open>One pass through the body of the inner loop, lines 312-332.\<close>

definition sample_step :: "params \<Rightarrow> mnist \<Rightarrow> (nat \<Rightarrow> nat) \<Rightarrow> train_state \<Rightarrow> error + train_state" where
  "sample_step ps mn rnd st =
     ebind (randint (rnd (st_draws st)) 0 (int (n_train mn) - 1)) (\<lambda>n_random.
     ebind (py_get (y_train mn) n_random) (\<lambda>y.
     ebind (py_get (rows (x_train mn)) n_random) (\<lambda>x.
     ebind (forward x (st_model st) (sigma_arg ps)) (\<lambda>(Z, H, f).
     ebind (np_argmax f) (\<lambda>prediction.
     let tc = (if int prediction = y then st_correct st + 1 else st_correct st) in
     ebind (backprop x y f Z H (st_model st) (st_grads st) (sigma_arg ps)) (\<lambda>g.
     ebind (mat_add (W (st_model st)) (scal_mat (st_LR st) (W g))) (\<lambda>W'.
     ebind (mat_add (C (st_model st)) (scal_mat (st_LR st) (C g))) (\<lambda>C'.
     ebind (np_add (b1 (st_model st)) (scal_vec (st_LR st) (b1 g))) (\<lambda>b1'.
     ebind (np_add (b2 (st_model st)) (scal_vec (st_LR st) (b2 g))) (\<lambda>b2'.
     Inr (st\<lparr>st_model := \<lparr>W = W', C = C', b1 = b1', b2 = b2'\<rparr>,
             st_grads := g,
             st_correct := tc,
             st_draws := st_draws st + 1\<rparr>)))))))))))"

text \<open>\<^verbatim>\<open>for n in range(mnist['n_train'])\<close>: the body, \<open>k\<close> times.\<close>

fun sample_loop :: "params \<Rightarrow> mnist \<Rightarrow> (nat \<Rightarrow> nat) \<Rightarrow> nat \<Rightarrow> train_state \<Rightarrow> error + train_state" where
  "sample_loop ps mn rnd 0 st = Inr st"
| "sample_loop ps mn rnd (Suc k) st =
     ebind (sample_step ps mn rnd st) (\<lambda>st'. sample_loop ps mn rnd k st')"

text \<open>
  The staircase decay of lines 305-306. Python evaluates \<^verbatim>\<open>epochs % params.interval\<close>
  only when \<^verbatim>\<open>epochs > 0\<close>, and the remainder by zero raises.
\<close>

definition decay_step :: "params \<Rightarrow> nat \<Rightarrow> real \<Rightarrow> error + real" where
  "decay_step ps epochs LR =
     (if 0 < epochs then
        (if interval ps = 0 then Inl ZeroDivisionError
         else if int epochs mod interval ps = 0 then Inr (LR * decay ps) else Inr LR)
      else Inr LR)"

text \<open>
  The body of the outer loop, lines 304-335, for the epoch index \<open>epochs\<close>. The division
  in the print statement is a Python float division (\<^verbatim>\<open>np.float\<close> is Python's
  \<^verbatim>\<open>float\<close> in the NumPy releases that have it) and raises on \<^verbatim>\<open>n_train = 0\<close>.
\<close>

definition epoch_body :: "params \<Rightarrow> mnist \<Rightarrow> (nat \<Rightarrow> nat) \<Rightarrow> nat \<Rightarrow> train_state \<Rightarrow> error + train_state" where
  "epoch_body ps mn rnd epochs st =
     ebind (decay_step ps epochs (st_LR st)) (\<lambda>LR'.
     ebind (sample_loop ps mn rnd (n_train mn) (st\<lparr>st_LR := LR', st_correct := 0\<rparr>)) (\<lambda>st'.
     if n_train mn = 0 then Inl ZeroDivisionError
     else Inr (st'\<lparr>st_out := st_out st' @ [(epochs, real (st_correct st') / real (n_train mn))]\<rparr>)))"

fun epoch_loop :: "params \<Rightarrow> mnist \<Rightarrow> (nat \<Rightarrow> nat) \<Rightarrow> nat list \<Rightarrow> train_state \<Rightarrow> error + train_state" where
  "epoch_loop ps mn rnd [] st = Inr st"
| "epoch_loop ps mn rnd (e # es) st =
     ebind (epoch_body ps mn rnd e st) (\<lambda>st'. epoch_loop ps mn rnd es st')"

text \<open>The state in which \<^verbatim>\<open>nn_train\<close> enters its outer loop.\<close>

definition train_init :: "tensors \<Rightarrow> tensors \<Rightarrow> params \<Rightarrow> train_state" where
  "train_init model model_grads ps =
     \<lparr>st_model = model, st_grads = model_grads, st_LR = lr ps,
      st_correct = 0, st_draws = 0, st_out = []\<rparr>"

text \<open>\<^verbatim>\<open>nn_train(model, model_grads, params, mnist)\<close>, lines 279-337; \<open>rnd\<close> is the entropy stream.\<close>

definition nn_train :: "tensors \<Rightarrow> tensors \<Rightarrow> params \<Rightarrow> mnist \<Rightarrow> (nat \<Rightarrow> nat) \<Rightarrow> error + tensors" where
  "nn_train model model_grads ps mn rnd =
     ebind (epoch_loop ps mn rnd [0..<nat (n_epochs ps)] (train_init model model_grads ps))
       (\<lambda>st. Inr (st_model st))"

subsection \<open>Evaluation\<close>

text \<open>
  \<^verbatim>\<open>plot_predict(x, y, pred)\<close>, lines 254-276: the figure drawn is recorded as the triple
  handed over; \<^verbatim>\<open>x.reshape(28,28)\<close> raises ValueError unless \<open>x\<close> has 784 entries.
\<close>

definition plot_predict :: "vec \<Rightarrow> int \<Rightarrow> nat \<Rightarrow> (vec \<times> int \<times> nat) list \<Rightarrow> error + (vec \<times> int \<times> nat) list" where
  "plot_predict x y pred figs = (if length x = 28 * 28 then Inr (figs @ [(x, y, pred)]) else Inl ValueError)"

record test_state =
  ts_total :: nat
  ts_correct :: nat
  ts_wrong :: nat
  ts_figs :: "(vec \<times> int \<times> nat) list"

text \<open>The body of the loop of \<^verbatim>\<open>nn_test\<close>, lines 363-382, for the index \<open>n\<close>; \<open>k = 5\<close>.\<close>

definition test_step :: "tensors \<Rightarrow> params \<Rightarrow> mnist \<Rightarrow> nat \<Rightarrow> test_state \<Rightarrow> error + test_state" where
  "test_step model ps mn n st =
     (let k = 5 in
      ebind (py_get (y_test mn) (int n)) (\<lambda>y.
      ebind (py_get (rows (x_test mn)) (int n)) (\<lambda>x.
      ebind (forward x model (sigma_arg ps)) (\<lambda>(Z, H, f).
      ebind (np_argmax f) (\<lambda>prediction.
      ebind (if int prediction = y then
               (if ts_correct st < k then
                  ebind (plot_predict x y prediction (ts_figs st)) (\<lambda>figs.
                  Inr (st\<lparr>ts_total := ts_total st + 1,
                          ts_correct := ts_correct st + 1,
                          ts_figs := figs\<rparr>))
                else Inr (st\<lparr>ts_total := ts_total st + 1\<rparr>))
             else Inr st) (\<lambda>st1.
      if int prediction \<noteq> y \<and> ts_wrong st1 < k then
        ebind (plot_predict x y prediction (ts_figs st1)) (\<lambda>figs.
        Inr (st1\<lparr>ts_wrong := ts_wrong st1 + 1, ts_figs := figs\<rparr>))
      else Inr st1))))))"

fun test_loop :: "tensors \<Rightarrow> params \<Rightarrow> mnist \<Rightarrow> nat list \<Rightarrow> test_state \<Rightarrow> error + test_state" where
  "test_loop model ps mn [] st = Inr st"
| "test_loop model ps mn (n # ns) st =
     ebind (test_step model ps mn n st) (\<lambda>st'. test_loop model ps mn ns st')"

text \<open>
  \<^verbatim>\<open>nn_test(model, params, mnist)\<close>, lines 339-385: what it shows, the figures in the
  order drawn and the accuracy printed. The division raises on \<^verbatim>\<open>n_test = 0\<close>.
\<close>

definition nn_test :: "tensors \<Rightarrow> params \<Rightarrow> mnist \<Rightarrow> error + ((vec \<times> int \<times> nat) list \<times> real)" where
  "nn_test model ps mn =
     ebind (test_loop model ps mn [0..<n_test mn]
              \<lparr>ts_total = 0, ts_correct = 0, ts_wrong = 0, ts_figs = []\<rparr>) (\<lambda>st.
     if n_test mn = 0 then Inl ZeroDivisionError
     else Inr (ts_figs st, real (ts_total st) / real (n_test mn)))"

subsection \<open>Forward and backward pass on a heap of arrays\<close>

text \<open>
  Arrays and dictionaries are Python objects, and a variable holds a reference. Where a
  statement is about what a call leaves untouched, the two passes are read once more
  over an explicit heap: \<open>vecs\<close> and \<open>mats\<close> give the contents of the one- and
  two-dimensional array at an address, \<open>dicts\<close> the four references a dictionary holds
  under its keys, and \<open>fresh\<close> is the next unused address. Every array expression of
  NumPy builds a new array; only \<^verbatim>\<open>dU[y] = ...\<close> writes into an existing one, and
  only \<^verbatim>\<open>model_grads[...] = ...\<close> rebinds a key.
\<close>

record refs =
  rW :: nat
  rC :: nat
  rb1 :: nat
  rb2 :: nat

record heap =
  vecs :: "nat \<Rightarrow> vec"
  mats :: "nat \<Rightarrow> mat"
  dicts :: "nat \<Rightarrow> refs"
  fresh :: nat

definition new_vec :: "vec \<Rightarrow> heap \<Rightarrow> nat \<times> heap" where
  "new_vec v h = (fresh h, h\<lparr>vecs := (vecs h)(fresh h := v), fresh := Suc (fresh h)\<rparr>)"

definition new_mat :: "mat \<Rightarrow> heap \<Rightarrow> nat \<times> heap" where
  "new_mat M h = (fresh h, h\<lparr>mats := (mats h)(fresh h := M), fresh := Suc (fresh h)\<rparr>)"

text \<open>The contents of the dictionary at \<open>d\<close>, as a bundle of arrays.\<close>

definition deref :: "heap \<Rightarrow> nat \<Rightarrow> tensors" where
  "deref h d =
     \<lparr>W = mats h (rW (dicts h d)), C = mats h (rC (dicts h d)),
      b1 = vecs h (rb1 (dicts h d)), b2 = vecs h (rb2 (dicts h d))\<rparr>"

text \<open>\<^verbatim>\<open>forward\<close> with \<open>x\<close> and \<open>model\<close> as references; it returns the references of \<open>Z\<close>, \<open>H\<close>, \<open>f\<close>.\<close>

definition forward_heap :: "nat \<Rightarrow> nat \<Rightarrow> string \<Rightarrow> heap \<Rightarrow> error + ((nat \<times> nat \<times> nat) \<times> heap)" where
  "forward_heap x model func h =
     ebind (np_dot (mats h (rW (dicts h model))) (vecs h x)) (\<lambda>Wx.
     ebind (np_add Wx (vecs h (rb1 (dicts h model)))) (\<lambda>Zv.
     let (Z, h1) = new_vec Zv h in
     ebind (sigma (vecs h1 Z) func) (\<lambda>Hv.
     let (H, h2) = new_vec Hv h1 in
     ebind (np_dot (mats h2 (rC (dicts h2 model))) (vecs h2 H)) (\<lambda>CH.
     ebind (np_add CH (vecs h2 (rb2 (dicts h2 model)))) (\<lambda>Uv.
     let (U, h3) = new_vec Uv h2;
         (f, h4) = new_vec (softmax_function (vecs h3 U)) h3 in
     Inr ((Z, H, f), h4))))))"

text \<open>
  \<^verbatim>\<open>backprop\<close> with every array and both dictionaries as references. \<^verbatim>\<open>db2 = dU\<close>
  is a second name for the same array; the reference returned is \<open>model_grads\<close> itself.
\<close>

definition backprop_heap ::
  "nat \<Rightarrow> int \<Rightarrow> nat \<Rightarrow> nat \<Rightarrow> nat \<Rightarrow> nat \<Rightarrow> nat \<Rightarrow> string \<Rightarrow> heap \<Rightarrow> error + (nat \<times> heap)" where
  "backprop_heap x y f Z H model model_grads func h =
     (let (dU, h1) = new_vec (map (\<lambda>v. (- 1) * v) (vecs h f)) h in
      ebind (py_index (length (vecs h1 dU)) y) (\<lambda>j.
      let h2 = h1\<lparr>vecs := (vecs h1)(dU := (vecs h1 dU)[j := vecs h1 dU ! j + 1])\<rparr>;
          db2 = dU;
          (dC, h3) = new_mat (np_outer (vecs h2 dU) (vecs h2 H)) h2 in
      ebind (np_dot (np_transpose (mats h3 (rC (dicts h3 model)))) (vecs h3 dU)) (\<lambda>dv.
      let (delta, h4) = new_vec dv h3 in
      ebind (d_sigma (vecs h4 Z) func) (\<lambda>zv.
      let (dZZ, h5) = new_vec zv h4 in
      ebind (np_multiply (vecs h5 delta) (vecs h5 dZZ)) (\<lambda>bv.
      let (db1, h6) = new_vec bv h5;
          (dW, h7) = new_mat (np_outer (vecs h6 db1) (vecs h6 x)) h6;
          h8 = h7\<lparr>dicts := (dicts h7)(model_grads := (dicts h7 model_grads)\<lparr>rW := dW\<rparr>)\<rparr>;
          h9 = h8\<lparr>dicts := (dicts h8)(model_grads := (dicts h8 model_grads)\<lparr>rC := dC\<rparr>)\<rparr>;
          h10 = h9\<lparr>dicts := (dicts h9)(model_grads := (dicts h9 model_grads)\<lparr>rb1 := db1\<rparr>)\<rparr>;
          h11 = h10\<lparr>dicts := (dicts h10)(model_grads := (dicts h10 model_grads)\<lparr>rb2 := db2\<rparr>)\<rparr>
      in Inr (model_grads, h11))))))"

subsection \<open>Activation and softmax in the range of binary64\<close>

text \<open>
  \<^verbatim>\<open>np.exp\<close> and the arithmetic on its results run in IEEE binary64, where a result
  can leave the range of the numbers. For the three functions that call \<^verbatim>\<open>np.exp\<close>
  the lines are read once more with that range: a value is a number, an infinity or
  \<^verbatim>\<open>nan\<close>; a result of magnitude \<open>2\<^sup>1\<^sup>0\<^sup>2\<^sup>4 - 2\<^sup>9\<^sup>7\<^sup>0\<close> or more becomes an infinity and one of
  magnitude \<open>2\<^sup>-\<^sup>1\<^sup>0\<^sup>7\<^sup>5\<close> or less becomes zero, as rounding to nearest does. Between these
  bounds a result is kept as it is: rounding to 53 bits is not modelled, only the range.
  NumPy raises no exception here (it warns). The inputs are arrays of numbers. Every zero
  that is divided by below is the sum of results of \<^verbatim>\<open>np.exp\<close>, hence \<open>+0\<close>.
\<close>

datatype f64 = Fin real | PInf | NInf | NaN

definition f64_huge :: real where
  "f64_huge = 2 ^ 1024 - 2 ^ 970"

definition f64_tiny :: real where
  "f64_tiny = 1 / 2 ^ 1075"

definition f64_round :: "real \<Rightarrow> f64" where
  "f64_round r =
     (if f64_huge \<le> r then PInf
      else if r \<le> - f64_huge then NInf
      else if \<bar>r\<bar> \<le> f64_tiny then Fin 0
      else Fin r)"

fun f64_neg :: "f64 \<Rightarrow> f64" where
  "f64_neg (Fin x) = Fin (- x)"
| "f64_neg PInf = NInf"
| "f64_neg NInf = PInf"
| "f64_neg NaN = NaN"

fun f64_add :: "f64 \<Rightarrow> f64 \<Rightarrow> f64" where
  "f64_add (Fin x) (Fin y) = f64_round (x + y)"
| "f64_add NaN b = NaN"
| "f64_add a NaN = NaN"
| "f64_add PInf NInf = NaN"
| "f64_add NInf PInf = NaN"
| "f64_add PInf b = PInf"
| "f64_add a PInf = PInf"
| "f64_add NInf b = NInf"
| "f64_add a NInf = NInf"

definition f64_sub :: "f64 \<Rightarrow> f64 \<Rightarrow> f64" where
  "f64_sub a b = f64_add a (f64_neg b)"

fun f64_mul :: "f64 \<Rightarrow> f64 \<Rightarrow> f64" where
  "f64_mul (Fin x) (Fin y) = f64_round (x * y)"
| "f64_mul NaN b = NaN"
| "f64_mul a NaN = NaN"
| "f64_mul (Fin x) PInf = (if x = 0 then NaN else if 0 < x then PInf else NInf)"
| "f64_mul (Fin x) NInf = (if x = 0 then NaN else if 0 < x then NInf else PInf)"
| "f64_mul PInf (Fin y) = (if y = 0 then NaN else if 0 < y then PInf else NInf)"
| "f64_mul NInf (Fin y) = (if y = 0 then NaN else if 0 < y then NInf else PInf)"
| "f64_mul PInf PInf = PInf"
| "f64_mul NInf NInf = PInf"
| "f64_mul PInf NInf = NInf"
| "f64_mul NInf PInf = NInf"

fun f64_div :: "f64 \<Rightarrow> f64 \<Rightarrow> f64" where
  "f64_div (Fin x) (Fin y) =
     (if y = 0 then (if x = 0 then NaN else if 0 < x then PInf else NInf)
      else f64_round (x / y))"
| "f64_div NaN b = NaN"
| "f64_div a NaN = NaN"
| "f64_div (Fin x) PInf = Fin 0"
| "f64_div (Fin x) NInf = Fin 0"
| "f64_div PInf (Fin y) = (if 0 \<le> y then PInf else NInf)"
| "f64_div NInf (Fin y) = (if 0 \<le> y then NInf else PInf)"
| "f64_div PInf PInf = NaN"
| "f64_div PInf NInf = NaN"
| "f64_div NInf PInf = NaN"
| "f64_div NInf NInf = NaN"

text \<open>\<^verbatim>\<open>np.exp\<close> and \<^verbatim>\<open>np.tanh\<close> of a number, and \<^verbatim>\<open>np.sum\<close> of an array (0.0 when it is empty).\<close>

definition f64_exp :: "real \<Rightarrow> f64" where
  "f64_exp x = f64_round (exp x)"

definition f64_tanh :: "real \<Rightarrow> f64" where
  "f64_tanh x = f64_round (tanh x)"

definition f64_sum :: "f64 list \<Rightarrow> f64" where
  "f64_sum xs = (case xs of [] \<Rightarrow> Fin 0 | a # as \<Rightarrow> foldl f64_add a as)"

text \<open>Lines 135-140, 159-164 and 181 in this range.\<close>

definition sigma64 :: "real list \<Rightarrow> string \<Rightarrow> error + f64 list" where
  "sigma64 z func =
     (if func = ''tanh'' then Inr (map f64_tanh z)
      else if func = ''sigmoid'' then
        Inr (map (\<lambda>v. f64_div (f64_exp v) (f64_add (Fin 1) (f64_exp v))) z)
      else Inl (SystemExit ''Unsupported function type!''))"

definition d_sigma64 :: "real list \<Rightarrow> string \<Rightarrow> error + f64 list" where
  "d_sigma64 z func =
     (if func = ''tanh'' then
        Inr (map (\<lambda>v. f64_sub (Fin 1) (f64_mul (f64_tanh v) (f64_tanh v))) z)
      else if func = ''sigmoid'' then
        Inr (map (\<lambda>v. f64_mul (f64_div (f64_exp v) (f64_add (Fin 1) (f64_exp v)))
                          (f64_sub (Fin 1) (f64_div (f64_exp v) (f64_add (Fin 1) (f64_exp v))))) z)
      else Inl (SystemExit ''Unsupported function type!''))"

definition softmax_function64 :: "real list \<Rightarrow> f64 list" where
  "softmax_function64 z = map (\<lambda>v. f64_div (f64_exp v) (f64_sum (map f64_exp z))) z"

text \<open>
  A result well inside the range: zero, or of magnitude between \<open>2\<^sup>-\<^sup>1\<^sup>0\<^sup>2\<^sup>2\<close> and \<open>2\<^sup>1\<^sup>0\<^sup>2\<^sup>3\<close>.
  The three predicates say that every intermediate result of a line is of this kind.
\<close>

definition f64_normal :: "real \<Rightarrow> bool" where
  "f64_normal r = (r = 0 \<or> (1 / 2 ^ 1022 \<le> \<bar>r\<bar> \<and> \<bar>r\<bar> \<le> 2 ^ 1023))"

definition tanh_in_range :: "real \<Rightarrow> bool" where
  "tanh_in_range v =
     (f64_normal (tanh v) \<and> f64_normal (tanh v * tanh v) \<and> f64_normal (1 - tanh v * tanh v))"

definition sigmoid_in_range :: "real \<Rightarrow> bool" where
  "sigmoid_in_range v =
     (f64_normal (exp v) \<and> f64_normal (1 + exp v) \<and> f64_normal (exp v / (1 + exp v))
      \<and> f64_normal (1 - exp v / (1 + exp v))
      \<and> f64_normal (exp v / (1 + exp v) * (1 - exp v / (1 + exp v))))"

definition softmax_in_range :: "real list \<Rightarrow> bool" where
  "softmax_in_range u =
     (list_all (\<lambda>v. 1 / 2 ^ 1022 \<le> exp v) u
      \<and> sum_list (map exp u) \<le> 2 ^ 1023
      \<and> list_all (\<lambda>v. 1 / 2 ^ 1022 \<le> exp v / sum_list (map exp u)) u)"

section \<open>The formulas of the specification\<close>

text \<open>
  The mathematics the specification states, written with indices and sums and without
  reference to the code: \<open>W\<cdot>x\<close>, \<open>C\<^sup>T\<cdot>v\<close>, sums and products of vectors, the outer
  product, the one-hot vector, the two activations with their derivatives, and softmax.
\<close>

definition logistic :: "real \<Rightarrow> real" where
  "logistic v = 1 / (1 + exp (- v))"

definition spec_activate :: "string \<Rightarrow> vec \<Rightarrow> vec" where
  "spec_activate kind z = (if kind = ''tanh'' then map tanh z else map logistic z)"

definition spec_activate_derivative :: "string \<Rightarrow> vec \<Rightarrow> vec" where
  "spec_activate_derivative kind z =
     (if kind = ''tanh'' then map (\<lambda>v. 1 - (tanh v)\<^sup>2) z
      else map (\<lambda>v. logistic v * (1 - logistic v)) z)"

definition spec_softmax :: "vec \<Rightarrow> vec" where
  "spec_softmax u = map (\<lambda>i. exp (u ! i) / (\<Sum>j<length u. exp (u ! j))) [0..<length u]"

definition spec_matvec :: "mat \<Rightarrow> vec \<Rightarrow> vec" where
  "spec_matvec M x = map (\<lambda>i. \<Sum>j<ncols M. rows M ! i ! j * x ! j) [0..<nrows M]"

definition spec_tmatvec :: "mat \<Rightarrow> vec \<Rightarrow> vec" where
  "spec_tmatvec M v = map (\<lambda>j. \<Sum>i<nrows M. rows M ! i ! j * v ! i) [0..<ncols M]"

definition spec_vadd :: "vec \<Rightarrow> vec \<Rightarrow> vec" where
  "spec_vadd a b = map (\<lambda>i. a ! i + b ! i) [0..<length a]"

definition spec_vsub :: "vec \<Rightarrow> vec \<Rightarrow> vec" where
  "spec_vsub a b = map (\<lambda>i. a ! i - b ! i) [0..<length a]"

definition spec_vmul :: "vec \<Rightarrow> vec \<Rightarrow> vec" where
  "spec_vmul a b = map (\<lambda>i. a ! i * b ! i) [0..<length a]"

definition spec_outer :: "vec \<Rightarrow> vec \<Rightarrow> mat" where
  "spec_outer a b =
     \<lparr>ncols = length b, rows = map (\<lambda>i. map (\<lambda>j. a ! i * b ! j) [0..<length b]) [0..<length a]\<rparr>"

definition spec_one_hot :: "nat \<Rightarrow> int \<Rightarrow> vec" where
  "spec_one_hot k y = map (\<lambda>i. if int i = y then 1 else 0) [0..<k]"

text \<open>\<open>A + c\<cdot>G\<close> for matrices and for vectors of one shape: the update of a parameter.\<close>

definition spec_maxpy :: "mat \<Rightarrow> real \<Rightarrow> mat \<Rightarrow> mat" where
  "spec_maxpy A c G =
     \<lparr>ncols = ncols A,
      rows = map (\<lambda>i. map (\<lambda>j. rows A ! i ! j + c * rows G ! i ! j) [0..<ncols A]) [0..<nrows A]\<rparr>"

definition spec_vaxpy :: "vec \<Rightarrow> real \<Rightarrow> vec \<Rightarrow> vec" where
  "spec_vaxpy a c g = map (\<lambda>i. a ! i + c * g ! i) [0..<length a]"

text \<open>Section 4.3: \<open>z = W\<cdot>x + b1\<close>, \<open>h = activate(z)\<close>, \<open>u = C\<cdot>h + b2\<close>, \<open>p = softmax(u)\<close>.\<close>

definition spec_forward :: "vec \<Rightarrow> tensors \<Rightarrow> string \<Rightarrow> vec \<times> vec \<times> vec" where
  "spec_forward x model kind =
     (let z = spec_vadd (spec_matvec (W model) x) (b1 model);
          h = spec_activate kind z;
          u = spec_vadd (spec_matvec (C model) h) (b2 model)
      in (z, h, spec_softmax u))"

text \<open>
  Section 4.4 as the claim reads it: \<open>db2 = one_hot(y) - p\<close>, \<open>dC = outer(db2, h)\<close>,
  \<open>db1 = (C\<^sup>T\<cdot>db2) \<odot> activate_derivative(z)\<close>, \<open>dW = outer(db1, x)\<close>.
\<close>

definition spec_backprop :: "vec \<Rightarrow> int \<Rightarrow> vec \<Rightarrow> vec \<Rightarrow> vec \<Rightarrow> tensors \<Rightarrow> string \<Rightarrow> tensors" where
  "spec_backprop x y p z h model kind =
     (let db2 = spec_vsub (spec_one_hot (length p) y) p;
          dC = spec_outer db2 h;
          db1 = spec_vmul (spec_tmatvec (C model) db2) (spec_activate_derivative kind z);
          dW = spec_outer db1 x
      in \<lparr>W = dW, C = dC, b1 = db1, b2 = db2\<rparr>)"

text \<open>Section 4.5, the update of a sample-step: \<open>param += learning_rate * gradient\<close> on all four tensors.\<close>

definition spec_update :: "tensors \<Rightarrow> real \<Rightarrow> tensors \<Rightarrow> tensors" where
  "spec_update model rate g =
     \<lparr>W = spec_maxpy (W model) rate (W g), C = spec_maxpy (C model) rate (C g),
      b1 = spec_vaxpy (b1 model) rate (b1 g), b2 = spec_vaxpy (b2 model) rate (b2 g)\<rparr>"

text \<open>The shapes of section 3: \<open>W\<close> is \<open>H \<times> D\<close>, \<open>C\<close> is \<open>K \<times> H\<close>, \<open>b1\<close> has \<open>H\<close> and \<open>b2\<close> has \<open>K\<close> entries.\<close>

definition shaped :: "nat \<Rightarrow> nat \<Rightarrow> nat \<Rightarrow> tensors \<Rightarrow> bool" where
  "shaped hn d k model =
     (is_mat hn d (W model) \<and> is_mat k hn (C model) \<and> length (b1 model) = hn \<and> length (b2 model) = k)"

text \<open>
  Section 4.5 as one recurrence over the sample-steps of the whole run, numbered from
  0: step \<open>t\<close> belongs to epoch \<open>t div N\<^sub>1\<close>, is taken at the rate
  \<open>lr \<cdot> decay ^ (epoch div interval)\<close> on the training sample whose index is the \<open>t\<close>-th
  draw, and adds the rate times the gradient of that sample to the parameters.
\<close>

definition spec_rate :: "params \<Rightarrow> nat \<Rightarrow> real" where
  "spec_rate ps e = lr ps * decay ps ^ (e div nat (interval ps))"

definition spec_grad :: "params \<Rightarrow> mnist \<Rightarrow> nat \<Rightarrow> tensors \<Rightarrow> tensors" where
  "spec_grad ps mn i model =
     (let x = rows (x_train mn) ! i; y = y_train mn ! i;
          (z, h, p) = spec_forward x model (sigma_arg ps)
      in spec_backprop x y p z h model (sigma_arg ps))"

definition spec_sgd :: "params \<Rightarrow> mnist \<Rightarrow> real \<Rightarrow> nat \<Rightarrow> tensors \<Rightarrow> tensors" where
  "spec_sgd ps mn rate i model = spec_update model rate (spec_grad ps mn i model)"

primrec spec_train :: "params \<Rightarrow> mnist \<Rightarrow> (nat \<Rightarrow> nat) \<Rightarrow> tensors \<Rightarrow> nat \<Rightarrow> tensors" where
  "spec_train ps mn rnd model 0 = model"
| "spec_train ps mn rnd model (Suc t) =
     spec_sgd ps mn (spec_rate ps (t div n_train mn)) (rnd t mod n_train mn)
       (spec_train ps mn rnd model t)"

text \<open>
  The data and hyperparameters of section 3 as far as training reads them: \<open>N\<^sub>1 \<ge> 1\<close>
  training samples of length \<open>D\<close> with labels in \<open>[0, K)\<close>, and one of the two activations.
\<close>

definition train_data_ok :: "nat \<Rightarrow> nat \<Rightarrow> mnist \<Rightarrow> bool" where
  "train_data_ok d k mn =
     (0 < n_train mn
      \<and> is_mat (n_train mn) d (x_train mn)
      \<and> length (y_train mn) = n_train mn
      \<and> list_all (\<lambda>y. 0 \<le> y \<and> y < int k) (y_train mn))"

definition train_ok :: "nat \<Rightarrow> nat \<Rightarrow> params \<Rightarrow> mnist \<Rightarrow> bool" where
  "train_ok d k ps mn =
     ((sigma_arg ps = ''tanh'' \<or> sigma_arg ps = ''sigmoid'') \<and> train_data_ok d k mn)"

text \<open>
  Section 4.6. The prediction for a distribution is the first index of a largest entry;
  \<open>spec_prediction\<close> is the triple of test sample \<open>n\<close> (pixels, true label, prediction) and a
  triple is \<open>correct\<close> when prediction and label agree. The test data: \<open>N\<^sub>2 \<ge> 1\<close> samples of
  length \<open>D\<close>, each with a label.
\<close>

definition spec_argmax :: "vec \<Rightarrow> nat" where
  "spec_argmax p = (LEAST i. i < length p \<and> (\<forall>j<length p. p ! j \<le> p ! i))"

definition spec_prediction :: "tensors \<Rightarrow> params \<Rightarrow> mnist \<Rightarrow> nat \<Rightarrow> vec \<times> int \<times> nat" where
  "spec_prediction model ps mn n =
     (let x = rows (x_test mn) ! n;
          (z, h, p) = spec_forward x model (sigma_arg ps)
      in (x, y_test mn ! n, spec_argmax p))"

definition correct :: "vec \<times> int \<times> nat \<Rightarrow> bool" where
  "correct t = (case t of (x, y, pred) \<Rightarrow> int pred = y)"

definition test_data_ok :: "nat \<Rightarrow> mnist \<Rightarrow> bool" where
  "test_data_ok d mn =
     (0 < n_test mn \<and> is_mat (n_test mn) d (x_test mn) \<and> length (y_test mn) = n_test mn)"

text \<open>
  What the loop of \<^verbatim>\<open>nn_test\<close> holds after the samples with the triples \<open>ts\<close>: the
  number of correct ones, both counters (they stop at 5), and in \<open>ts_figs\<close> the first five
  correct and the first five misclassified triples.
\<close>

definition test_inv :: "(vec \<times> int \<times> nat) list \<Rightarrow> test_state \<Rightarrow> bool" where
  "test_inv ts st =
     (ts_total st = length (filter correct ts)
      \<and> ts_correct st = min 5 (length (filter correct ts))
      \<and> ts_wrong st = min 5 (length (filter (\<lambda>t. \<not> correct t) ts))
      \<and> filter correct (ts_figs st) = take 5 (filter correct ts)
      \<and> filter (\<lambda>t. \<not> correct t) (ts_figs st) = take 5 (filter (\<lambda>t. \<not> correct t) ts))"

text \<open>A result that is the process ending in \<^verbatim>\<open>sys.exit\<close>.\<close>

definition is_exit :: "error + 'a \<Rightarrow> bool" where
  "is_exit r = (case r of Inl (SystemExit msg) \<Rightarrow> True | _ \<Rightarrow> False)"


section \<open>A small network for concrete runs\<close>

text \<open>
  One input, one hidden unit, two classes: \<open>W = [[1]]\<close>, \<open>C = [[1], [2]]\<close>, both biases
  zero. On the heap the input \<open>[1]\<close> is at address 0, the arrays \<open>f = [1/2, 1/2]\<close>,
  \<open>Z = [0]\<close>, \<open>H = [0]\<close> at 1, 2, 3, the tensors of the model at 4 to 7; the dictionary
  \<open>model\<close> is at address 0 and \<open>model_grads\<close>, which starts as a copy, at address 1.
\<close>

definition ex_model :: tensors where
  "ex_model = \<lparr>W = \<lparr>ncols = 1, rows = [[1]]\<rparr>, C = \<lparr>ncols = 1, rows = [[1], [2]]\<rparr>,
                b1 = [0], b2 = [0, 0]\<rparr>"

definition ex_heap :: heap where
  "ex_heap =
     \<lparr>vecs = (\<lambda>_. [])(0 := [1], 1 := [1 / 2, 1 / 2], 2 := [0], 3 := [0], 6 := [0], 7 := [0, 0],
                        10 := [0], 11 := [0, 0]),
      mats = (\<lambda>_. \<lparr>ncols = 0, rows = []\<rparr>)
               (4 := \<lparr>ncols = 1, rows = [[1]]\<rparr>, 5 := \<lparr>ncols = 1, rows = [[1], [2]]\<rparr>,
                8 := \<lparr>ncols = 1, rows = [[1]]\<rparr>, 9 := \<lparr>ncols = 1, rows = [[1], [2]]\<rparr>),
      dicts = (\<lambda>_. \<lparr>rW = 8, rC = 9, rb1 = 10, rb2 = 11\<rparr>)(0 := \<lparr>rW = 4, rC = 5, rb1 = 6, rb2 = 7\<rparr>),
      fresh = 12\<rparr>"

text \<open>
  Hyperparameters with the defaults of \<^verbatim>\<open>parse_params\<close> for the rate, the decay, the
  interval and the epoch count, and a data set of two training samples for this network.
\<close>

definition ex_params :: params where
  "ex_params = \<lparr>lr = 1 / 10, decay = 1 / 10, interval = 5, n_epochs = 20, n_h = 1, sigma_arg = ''tanh''\<rparr>"

text \<open>What \<^verbatim>\<open>init_model\<close> builds for this data when every normal draw is 1.\<close>

definition ex_init :: tensors where
  "ex_init = \<lparr>W = \<lparr>ncols = 1, rows = [[1]]\<rparr>, C = \<lparr>ncols = 1, rows = [[1], [1]]\<rparr>,
               b1 = [1], b2 = [1 / sqrt 2, 1 / sqrt 2]\<rparr>"

definition ex_mnist :: mnist where
  "ex_mnist =
     \<lparr>x_train = \<lparr>ncols = 1, rows = [[1], [0]]\<rparr>, y_train = [0, 1],
      x_test = \<lparr>ncols = 1, rows = []\<rparr>, y_test = [],
      n_train = 2, n_test = 0, n_input = 1, n_output = 2\<rparr>"

text \<open>
  A network on 784 pixels with all parameters zero, which predicts class 0 for every
  input, and twelve blank test images labelled 0, 1, 0, 1, ...
\<close>

definition ex_zero_model :: tensors where
  "ex_zero_model = \<lparr>W = \<lparr>ncols = 784, rows = [replicate 784 0]\<rparr>,
                     C = \<lparr>ncols = 1, rows = [[0], [0]]\<rparr>, b1 = [0], b2 = [0, 0]\<rparr>"

definition ex_image :: vec where
  "ex_image = replicate 784 0"

definition ex_test :: mnist where
  "ex_test =
     \<lparr>x_train = \<lparr>ncols = 784, rows = []\<rparr>, y_train = [],
      x_test = \<lparr>ncols = 784, rows = replicate 12 ex_image\<rparr>,
      y_test = [0, 1, 0, 1, 0, 1, 0, 1, 0, 1, 0, 1],
      n_train = 0, n_test = 12, n_input = 784, n_output = 2\<rparr>"

section \<open>Properties\<close>

subsection \<open>Sequencing\<close>

lemma ebind_Inr [simp]: "ebind (Inr v) f = f v"
  by (simp add: ebind_def)

lemma ebind_Inl [simp]: "ebind (Inl e) f = Inl e"
  by (simp add: ebind_def)

lemma ebind_eq_Inr: "ebind m f = Inr r \<longleftrightarrow> (\<exists>v. m = Inr v \<and> f v = Inr r)"
  by (cases m) simp_all

subsection \<open>Activation and softmax\<close>

lemma softmax_length: "length (softmax_function z) = length z"
  by (simp add: softmax_function_def)

lemma logistic_alt: "exp v / (1 + exp v) = logistic v"
proof -
  have "exp v * (1 + exp (- v)) = 1 + exp v"
    by (simp add: algebra_simps flip: exp_add)
  moreover have "1 + exp v > 0" "1 + exp (- v) > 0"
    by (simp_all add: add_pos_pos)
  ultimately show ?thesis
    unfolding logistic_def by (simp add: field_simps)
qed

lemma logistic_deriv: "(logistic has_real_derivative (logistic v * (1 - logistic v))) (at v)"
proof -
  have pos: "1 + exp (- v) \<noteq> 0"
    using exp_gt_zero [of "- v"] by linarith
  have "((\<lambda>t. 1 / (1 + exp (- t))) has_real_derivative (logistic v * (1 - logistic v))) (at v)"
    unfolding logistic_def
    by (rule derivative_eq_intros refl pos | simp add: pos)+
       (simp add: field_simps pos power2_eq_square)
  then show ?thesis
    by (simp add: logistic_def [abs_def])
qed

lemma tanh_deriv: "(tanh has_real_derivative (1 - (tanh v)\<^sup>2)) (at (v::real))"
  by (rule derivative_eq_intros refl | simp)+

lemma activation_exact:
  "sigma z ''tanh'' = Inr (map tanh z)
   \<and> d_sigma z ''tanh'' = Inr (map (\<lambda>a. 1 - a\<^sup>2) (map tanh z))
   \<and> sigma z ''sigmoid'' = Inr (map logistic z)
   \<and> d_sigma z ''sigmoid'' = Inr (map (\<lambda>a. a * (1 - a)) (map logistic z))
   \<and> (tanh has_real_derivative (1 - (tanh v)\<^sup>2)) (at v)
   \<and> (logistic has_real_derivative (logistic v * (1 - logistic v))) (at v)"
proof -
  have t: "sigma z ''tanh'' = Inr (map tanh z)"
    by (simp add: sigma_def)
  have dt: "d_sigma z ''tanh'' = Inr (map (\<lambda>a. 1 - a\<^sup>2) (map tanh z))"
    by (simp add: d_sigma_def)
  have s: "sigma z ''sigmoid'' = Inr (map logistic z)"
    by (simp add: sigma_def logistic_alt)
  have ds: "d_sigma z ''sigmoid'' = Inr (map (\<lambda>a. a * (1 - a)) (map logistic z))"
    by (simp add: d_sigma_def logistic_alt)
  from t dt s ds tanh_deriv [of v] logistic_deriv [of v] show ?thesis
    by blast
qed

lemma sum_exp_nonneg: "0 \<le> sum_list (map exp (z::real list))"
  by (induction z) simp_all

lemma sum_exp_pos: "z \<noteq> [] \<Longrightarrow> 0 < sum_list (map exp (z::real list))"
proof (cases z)
  case Nil
  assume "z \<noteq> []"
  with Nil show ?thesis by simp
next
  case (Cons a t)
  have "0 < exp a + sum_list (map exp t)"
    using exp_gt_zero [of a] sum_exp_nonneg [of t] by linarith
  with Cons show ?thesis by simp
qed

lemma sum_list_divide: "sum_list (map (\<lambda>v. g v / c) xs) = sum_list (map g xs) / (c::real)"
  by (induction xs) (simp_all add: add_divide_distrib)

lemma sum_list_nth: "sum_list xs = (\<Sum>j<length xs. xs ! j)"
  by (simp add: sum_list_sum_nth atLeast0LessThan)

lemma exp_le_sum_exp: "v \<in> set z \<Longrightarrow> exp v \<le> sum_list (map exp (z::real list))"
proof (induction z)
  case Nil
  then show ?case by simp
next
  case (Cons a t)
  show ?case
  proof (cases "v = a")
    case True
    then show ?thesis using sum_exp_nonneg [of t] by simp
  next
    case False
    with Cons have "exp v \<le> sum_list (map exp t)" by simp
    with exp_gt_zero [of a] have "exp v \<le> exp a + sum_list (map exp t)" by linarith
    then show ?thesis by simp
  qed
qed

lemma softmax_exact:
  assumes "u \<noteq> []"
  shows "length (softmax_function u) = length u
    \<and> (\<forall>i<length u. softmax_function u ! i = exp (u ! i) / (\<Sum>j<length u. exp (u ! j)))
    \<and> (\<forall>i<length u. 0 \<le> softmax_function u ! i \<and> softmax_function u ! i \<le> 1)
    \<and> sum_list (softmax_function u) = 1"
proof -
  let ?S = "sum_list (map exp u)"
  have pos: "0 < ?S" using assms by (rule sum_exp_pos)
  have S: "?S = (\<Sum>j<length u. exp (u ! j))"
    by (simp add: sum_list_nth)
  have entry: "softmax_function u ! i = exp (u ! i) / ?S" if "i < length u" for i
    using that by (simp add: softmax_function_def)
  have bounds: "0 \<le> softmax_function u ! i \<and> softmax_function u ! i \<le> 1" if "i < length u" for i
  proof -
    have "exp (u ! i) \<le> ?S" using that by (intro exp_le_sum_exp) simp
    with pos show ?thesis by (simp add: entry that)
  qed
  have "sum_list (softmax_function u) = ?S / ?S"
    by (simp add: softmax_function_def sum_list_divide)
  with pos have "sum_list (softmax_function u) = 1" by simp
  with entry bounds show ?thesis by (simp add: softmax_length S)
qed

subsection \<open>The NumPy operations on arrays of matching shapes\<close>

lemma bidx_less: "i < n \<Longrightarrow> bidx n i = i"
  by (auto simp: bidx_def)

lemma elementwise_same:
  "length a = length b \<Longrightarrow>
   elementwise f a b = Inr (map (\<lambda>i. f (a ! i) (b ! i)) [0..<length a])"
  by (simp add: elementwise_def bshape_def bidx_less)

lemma np_add_same: "length a = length b \<Longrightarrow> np_add a b = Inr (spec_vadd a b)"
  by (simp add: np_add_def elementwise_same spec_vadd_def)

lemma np_multiply_same: "length a = length b \<Longrightarrow> np_multiply a b = Inr (spec_vmul a b)"
  by (simp add: np_multiply_def elementwise_same spec_vmul_def)

lemma np_add_scal_same:
  "length a = length g \<Longrightarrow> np_add a (scal_vec c g) = Inr (spec_vaxpy a c g)"
  by (simp add: np_add_def scal_vec_def elementwise_same spec_vaxpy_def)

lemma length_spec_vadd [simp]: "length (spec_vadd a b) = length a"
  by (simp add: spec_vadd_def)

lemma length_spec_vmul [simp]: "length (spec_vmul a b) = length a"
  by (simp add: spec_vmul_def)

lemma length_spec_vaxpy [simp]: "length (spec_vaxpy a c g) = length a"
  by (simp add: spec_vaxpy_def)

lemma length_spec_matvec [simp]: "length (spec_matvec M x) = nrows M"
  by (simp add: spec_matvec_def)

lemma length_spec_tmatvec [simp]: "length (spec_tmatvec M v) = ncols M"
  by (simp add: spec_tmatvec_def)

lemma length_spec_activate [simp]: "length (spec_activate kind z) = length z"
  by (simp add: spec_activate_def)

lemma length_spec_activate_derivative [simp]: "length (spec_activate_derivative kind z) = length z"
  by (simp add: spec_activate_derivative_def)

lemma is_mat_nrows: "is_mat m n M \<Longrightarrow> nrows M = m"
  by (simp add: is_mat_def nrows_def)

lemma is_mat_ncols: "is_mat m n M \<Longrightarrow> ncols M = n"
  by (simp add: is_mat_def)

lemma is_mat_row: "is_mat m n M \<Longrightarrow> i < m \<Longrightarrow> length (rows M ! i) = n"
  by (simp add: is_mat_def list_all_length)

lemma dot_sum: "length r = length x \<Longrightarrow> dot r x = (\<Sum>j<length x. r ! j * x ! j)"
  by (simp add: dot_def sum_list_sum_nth atLeast0LessThan)

lemma map_by_index: "map g xs = map (\<lambda>i. g (xs ! i)) [0..<length xs]"
  by (rule nth_equalityI) simp_all

lemma np_dot_spec:
  assumes "is_mat m n M" "length x = n"
  shows "np_dot M x = Inr (spec_matvec M x)"
proof -
  have "map (\<lambda>r. dot r x) (rows M) = spec_matvec M x"
    unfolding spec_matvec_def
  proof (rule nth_equalityI)
    show "length (map (\<lambda>r. dot r x) (rows M)) =
          length (map (\<lambda>i. \<Sum>j<ncols M. rows M ! i ! j * x ! j) [0..<nrows M])"
      by (simp add: nrows_def)
  next
    fix i assume "i < length (map (\<lambda>r. dot r x) (rows M))"
    then have i: "i < m" using assms by (simp add: is_mat_def)
    then have "length (rows M ! i) = length x" using assms by (simp add: is_mat_row)
    then have "dot (rows M ! i) x = (\<Sum>j<ncols M. rows M ! i ! j * x ! j)"
      using assms by (simp add: dot_sum is_mat_ncols)
    with i assms show "map (\<lambda>r. dot r x) (rows M) ! i =
          map (\<lambda>i. \<Sum>j<ncols M. rows M ! i ! j * x ! j) [0..<nrows M] ! i"
      by (simp add: is_mat_def nrows_def)
  qed
  with assms show ?thesis by (simp add: np_dot_def is_mat_def)
qed

lemma np_dot_transpose_spec:
  assumes "is_mat m n M" "length v = m"
  shows "np_dot (np_transpose M) v = Inr (spec_tmatvec M v)"
proof -
  have len: "length (rows M) = m" using assms by (simp add: is_mat_def)
  have row: "dot (map (\<lambda>r. r ! j) (rows M)) v = (\<Sum>i<nrows M. rows M ! i ! j * v ! i)" for j
    using assms len by (simp add: dot_sum nrows_def)
  show ?thesis
    using assms len by (simp add: np_dot_def np_transpose_def spec_tmatvec_def nrows_def row [unfolded nrows_def])
qed

lemma np_outer_spec: "np_outer a b = spec_outer a b"
proof -
  have inner: "map (\<lambda>bj. c * bj) b = map (\<lambda>j. c * b ! j) [0..<length b]" for c :: real
    by (rule map_by_index)
  have "map (\<lambda>ai. map (\<lambda>bj. ai * bj) b) a = map (\<lambda>ai. map (\<lambda>j. ai * b ! j) [0..<length b]) a"
    by (simp add: inner)
  also have "\<dots> = map (\<lambda>i. map (\<lambda>j. a ! i * b ! j) [0..<length b]) [0..<length a]"
    by (rule map_by_index)
  finally show ?thesis by (simp add: np_outer_def spec_outer_def)
qed

lemma is_mat_spec_outer: "is_mat (length a) (length b) (spec_outer a b)"
  by (simp add: is_mat_def spec_outer_def list_all_length)

lemma mat_add_scal_spec:
  assumes "is_mat m n A" "is_mat m n G"
  shows "mat_add A (scal_mat c G) = Inr (spec_maxpy A c G)"
proof -
  have lens: "length (rows A) = m" "length (rows G) = m" "ncols A = n" "ncols G = n"
    using assms by (simp_all add: is_mat_def)
  have "map (\<lambda>i. map (\<lambda>j. rows A ! bidx m i ! bidx n j + map (map ((*) c)) (rows G) ! bidx m i ! bidx n j) [0..<n]) [0..<m]
      = map (\<lambda>i. map (\<lambda>j. rows A ! i ! j + c * rows G ! i ! j) [0..<n]) [0..<m]"
    using assms by (auto simp: bidx_less is_mat_row lens)
  then show ?thesis
    by (simp add: mat_add_def scal_mat_def spec_maxpy_def bshape_def nrows_def lens)
qed

lemma is_mat_spec_maxpy: "is_mat m n A \<Longrightarrow> is_mat m n (spec_maxpy A c G)"
  by (simp add: is_mat_def spec_maxpy_def nrows_def list_all_length)

lemma sigma_spec:
  "func = ''tanh'' \<or> func = ''sigmoid'' \<Longrightarrow> sigma z func = Inr (spec_activate func z)"
  by (auto simp: sigma_def spec_activate_def logistic_alt)

lemma d_sigma_spec:
  "func = ''tanh'' \<or> func = ''sigmoid'' \<Longrightarrow> d_sigma z func = Inr (spec_activate_derivative func z)"
  by (auto simp: d_sigma_def spec_activate_derivative_def logistic_alt)

lemma softmax_spec: "softmax_function u = spec_softmax u"
  by (simp add: softmax_function_def spec_softmax_def sum_list_nth map_by_index [of _ u] cong: map_cong)

lemma dU_spec:
  assumes "0 \<le> y" "y < int (length f)"
  shows "py_index (length (map (\<lambda>v. (- 1) * v) f)) y = Inr (nat y)"
    and "(map (\<lambda>v. (- 1) * v) f)[nat y := map (\<lambda>v. (- 1) * v) f ! nat y + 1]
         = spec_vsub (spec_one_hot (length f) y) f"
proof -
  show "py_index (length (map (\<lambda>v. (- 1) * v) f)) y = Inr (nat y)"
    using assms by (simp add: py_index_def)
  show "(map (\<lambda>v. (- 1) * v) f)[nat y := map (\<lambda>v. (- 1) * v) f ! nat y + 1]
         = spec_vsub (spec_one_hot (length f) y) f"
  proof (rule nth_equalityI)
    show "length ((map (\<lambda>v. (- 1) * v) f)[nat y := map (\<lambda>v. (- 1) * v) f ! nat y + 1])
          = length (spec_vsub (spec_one_hot (length f) y) f)"
      by (simp add: spec_vsub_def spec_one_hot_def)
  next
    fix i assume "i < length ((map (\<lambda>v. (- 1) * v) f)[nat y := map (\<lambda>v. (- 1) * v) f ! nat y + 1])"
    then have i: "i < length f" by simp
    show "(map (\<lambda>v. (- 1) * v) f)[nat y := map (\<lambda>v. (- 1) * v) f ! nat y + 1] ! i
          = spec_vsub (spec_one_hot (length f) y) f ! i"
    proof (cases "int i = y")
      case True
      then have "nat y = i" by simp
      with i True show ?thesis by (simp add: spec_vsub_def spec_one_hot_def)
    next
      case False
      then have "nat y \<noteq> i" using assms by auto
      with i False show ?thesis by (simp add: spec_vsub_def spec_one_hot_def)
    qed
  qed
qed

lemma forward_spec:
  assumes "shaped hn d k model" "length x = d" "func = ''tanh'' \<or> func = ''sigmoid''"
  shows "forward x model func = Inr (spec_forward x model func)"
proof -
  let ?z = "spec_vadd (spec_matvec (W model) x) (b1 model)"
  let ?h = "spec_activate func ?z"
  have W: "is_mat hn d (W model)" and C: "is_mat k hn (C model)"
    and b1: "length (b1 model) = hn" and b2: "length (b2 model) = k"
    using assms(1) by (simp_all add: shaped_def)
  have 1: "np_dot (W model) x = Inr (spec_matvec (W model) x)"
    using W assms(2) by (rule np_dot_spec)
  have 2: "np_add (spec_matvec (W model) x) (b1 model) = Inr ?z"
    using W b1 by (simp add: np_add_same is_mat_nrows)
  have 3: "sigma ?z func = Inr ?h"
    using assms(3) by (rule sigma_spec)
  have "length ?h = hn" using W by (simp add: is_mat_nrows)
  with C have 4: "np_dot (C model) ?h = Inr (spec_matvec (C model) ?h)"
    by (rule np_dot_spec)
  have 5: "np_add (spec_matvec (C model) ?h) (b2 model) = Inr (spec_vadd (spec_matvec (C model) ?h) (b2 model))"
    using C b2 by (simp add: np_add_same is_mat_nrows)
  show ?thesis
    by (simp add: forward_def spec_forward_def 1 2 3 4 5 softmax_spec Let_def)
qed

lemma backprop_spec:
  assumes "func = ''tanh'' \<or> func = ''sigmoid''"
    and "0 \<le> y" "y < int k" "length f = k" "is_mat k hn (C model)" "length Z = hn"
  shows "backprop x y f Z H model model_grads func = Inr (spec_backprop x y f Z H model func)"
proof -
  let ?db2 = "spec_vsub (spec_one_hot (length f) y) f"
  have y: "0 \<le> y" "y < int (length f)" using assms by simp_all
  have len: "length ?db2 = k" using assms by (simp add: spec_vsub_def spec_one_hot_def)
  have 1: "np_dot (np_transpose (C model)) ?db2 = Inr (spec_tmatvec (C model) ?db2)"
    using assms(5) len by (rule np_dot_transpose_spec)
  have 2: "d_sigma Z func = Inr (spec_activate_derivative func Z)"
    using assms(1) by (rule d_sigma_spec)
  have 3: "np_multiply (spec_tmatvec (C model) ?db2) (spec_activate_derivative func Z)
           = Inr (spec_vmul (spec_tmatvec (C model) ?db2) (spec_activate_derivative func Z))"
    using assms by (simp add: np_multiply_same is_mat_ncols)
  show ?thesis
    unfolding backprop_def Let_def
    by (simp add: dU_spec [OF y] 1 2 3 np_outer_spec spec_backprop_def Let_def del: length_map mult_minus1)
qed

subsection \<open>The passes on the heap against the passes on values\<close>

lemma tensors_eq:
  "W a = W b \<Longrightarrow> C a = C b \<Longrightarrow> b1 a = b1 b \<Longrightarrow> b2 a = b2 b \<Longrightarrow> a = (b::tensors)"
  by simp

lemma forward_heap_refines:
  assumes run: "forward (vecs h x) (deref h model) func = Inr (z, a, p)"
    and alloc: "rb2 (dicts h model) < fresh h"
  shows "\<exists>h'. forward_heap x model func h = Inr ((fresh h, fresh h + 1, fresh h + 3), h')
      \<and> vecs h' (fresh h) = z \<and> vecs h' (fresh h + 1) = a \<and> vecs h' (fresh h + 3) = p
      \<and> (\<forall>r<fresh h. vecs h' r = vecs h r) \<and> mats h' = mats h \<and> dicts h' = dicts h
      \<and> fresh h' = fresh h + 4"
  using run alloc
  by (auto simp: forward_def forward_heap_def deref_def ebind_eq_Inr new_vec_def Let_def)

lemma backprop_heap_frame:
  assumes "backprop_heap x y f Z H model model_grads func h = Inr (g, h')"
  shows "g = model_grads \<and> (\<forall>r<fresh h. vecs h' r = vecs h r \<and> mats h' r = mats h r)
     \<and> (\<forall>d. d \<noteq> model_grads \<longrightarrow> dicts h' d = dicts h d) \<and> fresh h \<le> fresh h'
     \<and> rb2 (dicts h' model_grads) = fresh h"
  using assms
  by (auto simp: backprop_heap_def ebind_eq_Inr new_vec_def new_mat_def Let_def split: prod.splits)

lemma backprop_heap_refines:
  assumes run: "backprop (vecs h x) y (vecs h f) (vecs h Z) (vecs h H) (deref h model) g0 func = Inr G"
    and alloc: "x < fresh h" "Z < fresh h" "H < fresh h" "rC (dicts h model) < fresh h"
  shows "\<exists>h'. backprop_heap x y f Z H model model_grads func h = Inr (model_grads, h')
      \<and> deref h' model_grads = G"
  using run alloc
  by (auto simp: backprop_def backprop_heap_def deref_def ebind_eq_Inr new_vec_def new_mat_def Let_def
           simp del: mult_minus1 intro!: tensors_eq)

subsection \<open>Forward and backward pass\<close>

lemma ex_model_shaped: "shaped 1 1 2 ex_model"
  by (simp add: shaped_def ex_model_def is_mat_def)

lemma ex_heap_model: "deref ex_heap 0 = ex_model"
  by (simp add: deref_def ex_heap_def ex_model_def)

text \<open>
  C1. For a label \<open>0 \<le> y < K\<close>, forward outputs \<open>p\<close> (length \<open>K\<close>), \<open>z\<close> (length \<open>H\<close>), \<open>h\<close>, an
  input \<open>x\<close> and a parameter bundle whose \<open>C\<close> is \<open>K \<times> H\<close>, the backward pass returns
  \<open>db2 = one_hot(y) - p\<close>, \<open>dC = outer(db2, h)\<close>,
  \<open>db1 = (C\<^sup>T\<cdot>db2) \<odot> activate_derivative(z)\<close> and \<open>dW = outer(db1, x)\<close>; the result is
  the same whatever the gradient bundle held before the call.
\<close>

theorem backprop_gradients:
  assumes "func = ''tanh'' \<or> func = ''sigmoid''"
    and "0 \<le> y" "y < int k" "length p = k" "is_mat k hn (C model)" "length z = hn"
  shows "backprop x y p z h model model_grads func = Inr (spec_backprop x y p z h model func)
       \<and> backprop x y p z h model other_grads func = backprop x y p z h model model_grads func"
proof -
  have result: "backprop x y p z h model g func = Inr (spec_backprop x y p z h model func)" for g
    using assms by (rule backprop_spec)
  from result [of model_grads] result [of other_grads] show ?thesis
    by simp
qed

theorem backprop_gradients_witness:
  "backprop [1] 0 [1 / 2, 1 / 2] [0] [0] ex_model ex_model ''tanh''
     = Inr \<lparr>W = \<lparr>ncols = 1, rows = [[- 1 / 2]]\<rparr>, C = \<lparr>ncols = 1, rows = [[0], [0]]\<rparr>,
            b1 = [- 1 / 2], b2 = [1 / 2, - 1 / 2]\<rparr>
   \<and> spec_backprop [1] 0 [1 / 2, 1 / 2] [0] [0] ex_model ''tanh''
     = \<lparr>W = \<lparr>ncols = 1, rows = [[- 1 / 2]]\<rparr>, C = \<lparr>ncols = 1, rows = [[0], [0]]\<rparr>,
            b1 = [- 1 / 2], b2 = [1 / 2, - 1 / 2]\<rparr>"
proof -
  have C: "is_mat 2 1 (C ex_model)" by (simp add: ex_model_def is_mat_def)
  have code: "backprop [1] 0 [1 / 2, 1 / 2] [0] [0] ex_model ex_model ''tanh''
     = Inr \<lparr>W = \<lparr>ncols = 1, rows = [[- 1 / 2]]\<rparr>, C = \<lparr>ncols = 1, rows = [[0], [0]]\<rparr>,
            b1 = [- 1 / 2], b2 = [1 / 2, - 1 / 2]\<rparr>"
    by (simp add: backprop_def py_index_def np_outer_def np_dot_def np_transpose_def dot_def
          d_sigma_def np_multiply_def elementwise_def bshape_def bidx_def ex_model_def nrows_def
          upt_rec [of 0] Let_def)
  from backprop_gradients [of "''tanh''" 0 2 "[1 / 2, 1 / 2]" 1 ex_model "[0]" "[1]" "[0]" ex_model ex_model, OF _ _ _ _ C]
  have "backprop [1] 0 [1 / 2, 1 / 2] [0] [0] ex_model ex_model ''tanh''
      = Inr (spec_backprop [1] 0 [1 / 2, 1 / 2] [0] [0] ex_model ''tanh'')"
    by simp
  with code show ?thesis by simp
qed

text \<open>
  C2. For \<open>x\<close> of length \<open>D\<close>, a parameter bundle of the shapes \<open>W: H \<times> D\<close>, \<open>C: K \<times> H\<close>,
  \<open>b1: H\<close>, \<open>b2: K\<close> and the activation \<^verbatim>\<open>tanh\<close> or \<^verbatim>\<open>sigmoid\<close>, the forward pass returns
  \<open>z = W\<cdot>x + b1\<close>, \<open>h = activate(z)\<close> and \<open>p = softmax(C\<cdot>h + b2)\<close>. The result is a function
  of these inputs alone, and on the heap the call only allocates: the array of \<open>x\<close>, the
  dictionary \<open>model\<close> and its four tensors, and every other array that existed before
  the call are unchanged.
\<close>

theorem forward_pass:
  assumes "shaped hn d k m" "length xv = d" "func = ''tanh'' \<or> func = ''sigmoid''"
    and "vecs h x = xv" "deref h model = m"
    and "x < fresh h" "rW (dicts h model) < fresh h" "rC (dicts h model) < fresh h"
        "rb1 (dicts h model) < fresh h" "rb2 (dicts h model) < fresh h"
  shows "forward xv m func = Inr (spec_forward xv m func)
     \<and> (\<exists>Z H f h'. forward_heap x model func h = Inr ((Z, H, f), h')
          \<and> (vecs h' Z, vecs h' H, vecs h' f) = spec_forward xv m func
          \<and> vecs h' x = xv \<and> deref h' model = m
          \<and> (\<forall>r<fresh h. vecs h' r = vecs h r) \<and> mats h' = mats h \<and> dicts h' = dicts h)"
proof -
  obtain z a p where zap: "spec_forward xv m func = (z, a, p)"
    by (cases "spec_forward xv m func") auto
  have run: "forward xv m func = Inr (z, a, p)"
    using forward_spec [OF assms(1-3)] zap by simp
  then have "forward (vecs h x) (deref h model) func = Inr (z, a, p)"
    using assms by simp
  from forward_heap_refines [OF this assms(10)]
  obtain h' where h': "forward_heap x model func h = Inr ((fresh h, fresh h + 1, fresh h + 3), h')"
    "vecs h' (fresh h) = z" "vecs h' (fresh h + 1) = a" "vecs h' (fresh h + 3) = p"
    "\<forall>r<fresh h. vecs h' r = vecs h r" "mats h' = mats h" "dicts h' = dicts h"
    by blast
  have "vecs h' x = xv" using h'(5) assms by simp
  moreover have "deref h' model = m"
    using h'(5-7) assms by (simp add: deref_def)
  ultimately show ?thesis using run zap h' by auto
qed

theorem forward_pass_witness:
  "forward [1] ex_model ''tanh'' = Inr (spec_forward [1] ex_model ''tanh'')
   \<and> (\<exists>Z H f h'. forward_heap 0 0 ''tanh'' ex_heap = Inr ((Z, H, f), h')
        \<and> vecs h' Z = [1] \<and> vecs h' H = [tanh 1] \<and> vecs h' 0 = [1] \<and> deref h' 0 = ex_model)"
proof -
  have z: "spec_forward [1] ex_model ''tanh'' =
      ([1], [tanh 1], spec_softmax [tanh 1, 2 * tanh 1])"
    by (simp add: spec_forward_def spec_vadd_def spec_matvec_def spec_activate_def ex_model_def
          nrows_def Let_def upt_rec [of 0] upt_rec [of 1])
  have "vecs ex_heap 0 = [1]" "0 < fresh ex_heap" "rW (dicts ex_heap 0) < fresh ex_heap"
    "rC (dicts ex_heap 0) < fresh ex_heap" "rb1 (dicts ex_heap 0) < fresh ex_heap"
    "rb2 (dicts ex_heap 0) < fresh ex_heap"
    by (simp_all add: ex_heap_def)
  from forward_pass [OF ex_model_shaped _ _ this(1) ex_heap_model this(2-6), of "''tanh''"]
  show ?thesis by (auto simp: z)
qed

text \<open>
  C9. A call of the backward pass that returns, returns the dictionary \<open>model_grads\<close> it
  was given and has changed nothing else that existed before: the arrays \<open>x\<close>, \<open>f\<close>, \<open>Z\<close>,
  \<open>H\<close>, the dictionary \<open>model\<close> (a dictionary other than \<open>model_grads\<close>) and its four
  tensors are as they were. The write \<^verbatim>\<open>dU[y] = dU[y] + 1.0\<close> goes to the array that
  \<^verbatim>\<open>- 1.0*f\<close> created, not to \<open>f\<close>: the array bound to \<^verbatim>\<open>model_grads['b2']\<close> afterwards
  is the first one the call allocated.
\<close>

theorem backprop_frame:
  assumes "backprop_heap x y f Z H model model_grads func h = Inr (g, h')"
    and "x < fresh h" "f < fresh h" "Z < fresh h" "H < fresh h"
    and "rW (dicts h model) < fresh h" "rC (dicts h model) < fresh h"
        "rb1 (dicts h model) < fresh h" "rb2 (dicts h model) < fresh h"
    and "model \<noteq> model_grads"
  shows "g = model_grads
     \<and> vecs h' x = vecs h x \<and> vecs h' f = vecs h f \<and> vecs h' Z = vecs h Z \<and> vecs h' H = vecs h H
     \<and> dicts h' model = dicts h model \<and> deref h' model = deref h model
     \<and> (\<forall>r<fresh h. vecs h' r = vecs h r \<and> mats h' r = mats h r)
     \<and> (\<forall>d. d \<noteq> model_grads \<longrightarrow> dicts h' d = dicts h d)
     \<and> rb2 (dicts h' model_grads) = fresh h \<and> rb2 (dicts h' model_grads) \<noteq> f"
proof -
  from backprop_heap_frame [OF assms(1)]
  have g: "g = model_grads"
    and arrays: "\<forall>r<fresh h. vecs h' r = vecs h r \<and> mats h' r = mats h r"
    and others: "\<forall>d. d \<noteq> model_grads \<longrightarrow> dicts h' d = dicts h d"
    and new: "rb2 (dicts h' model_grads) = fresh h"
    by simp_all
  have d: "dicts h' model = dicts h model" using others assms(10) by simp
  have "deref h' model = deref h model"
    using arrays assms(6-9) by (simp add: deref_def d)
  with g arrays others d new assms(2-5) show ?thesis by simp
qed

theorem backprop_frame_witness:
  "\<exists>h'. backprop_heap 0 0 1 2 3 0 1 ''tanh'' ex_heap = Inr (1, h')
     \<and> vecs h' 0 = [1] \<and> vecs h' 1 = [1 / 2, 1 / 2] \<and> vecs h' 2 = [0] \<and> vecs h' 3 = [0]
     \<and> deref h' 0 = ex_model"
proof -
  have C: "is_mat 2 1 (C ex_model)" by (simp add: ex_model_def is_mat_def)
  have "backprop [1] 0 [1 / 2, 1 / 2] [0] [0] ex_model ex_model ''tanh''
      = Inr (spec_backprop [1] 0 [1 / 2, 1 / 2] [0] [0] ex_model ''tanh'')"
    by (rule backprop_spec [where k = 2 and hn = 1]) (use C in simp_all)
  then have "backprop (vecs ex_heap 0) 0 (vecs ex_heap 1) (vecs ex_heap 2) (vecs ex_heap 3)
      (deref ex_heap 0) ex_model ''tanh'' = Inr (spec_backprop [1] 0 [1 / 2, 1 / 2] [0] [0] ex_model ''tanh'')"
    by (simp add: ex_heap_model) (simp add: ex_heap_def)
  from backprop_heap_refines [OF this, of 1]
  obtain h' where run: "backprop_heap 0 0 1 2 3 0 1 ''tanh'' ex_heap = Inr (1, h')"
    by (auto simp: ex_heap_def)
  from backprop_frame [OF run]
  have "vecs h' 0 = vecs ex_heap 0 \<and> vecs h' 1 = vecs ex_heap 1 \<and> vecs h' 2 = vecs ex_heap 2
      \<and> vecs h' 3 = vecs ex_heap 3 \<and> deref h' 0 = deref ex_heap 0"
    by (simp add: ex_heap_def)
  then have "vecs h' 0 = [1] \<and> vecs h' 1 = [1 / 2, 1 / 2] \<and> vecs h' 2 = [0] \<and> vecs h' 3 = [0]
      \<and> deref h' 0 = ex_model"
    by (simp add: ex_heap_model) (simp add: ex_heap_def)
  with run show ?thesis by blast
qed

subsection \<open>The learning rate and the draws of a run\<close>

lemma sample_step_LR:
  "sample_step ps mn rnd st = Inr st' \<Longrightarrow> st_LR st' = st_LR st \<and> st_draws st' = Suc (st_draws st)"
  by (auto simp: sample_step_def ebind_eq_Inr Let_def split: prod.splits)

lemma sample_loop_LR:
  "sample_loop ps mn rnd k st = Inr st' \<Longrightarrow> st_LR st' = st_LR st \<and> st_draws st' = st_draws st + k"
proof (induction k arbitrary: st)
  case 0
  then show ?case by simp
next
  case (Suc k)
  then obtain s1 where s1: "sample_step ps mn rnd st = Inr s1" "sample_loop ps mn rnd k s1 = Inr st'"
    by (auto simp: ebind_eq_Inr)
  from sample_step_LR [OF s1(1)] Suc.IH [OF s1(2)] show ?case by simp
qed

lemma epoch_body_LR:
  assumes "epoch_body ps mn rnd e st = Inr st'"
  shows "decay_step ps e (st_LR st) = Inr (st_LR st') \<and> st_draws st' = st_draws st + n_train mn"
proof -
  from assms obtain r s1 where r: "decay_step ps e (st_LR st) = Inr r"
    and s1: "sample_loop ps mn rnd (n_train mn) (st\<lparr>st_LR := r, st_correct := 0\<rparr>) = Inr s1"
    and st': "st' = s1\<lparr>st_out := st_out s1 @ [(e, real (st_correct s1) / real (n_train mn))]\<rparr>"
    by (auto simp: epoch_body_def ebind_eq_Inr split: if_splits)
  from sample_loop_LR [OF s1] r st' show ?thesis by simp
qed

lemma epoch_loop_append:
  "epoch_loop ps mn rnd (es @ fs) st = ebind (epoch_loop ps mn rnd es st) (epoch_loop ps mn rnd fs)"
proof (induction es arbitrary: st)
  case Nil
  then show ?case by simp
next
  case (Cons e es)
  show ?case
    by (cases "epoch_body ps mn rnd e st") (simp_all add: Cons.IH)
qed

lemma epoch_loop_snoc:
  "epoch_loop ps mn rnd [0..<Suc e] st = Inr st' \<longleftrightarrow>
   (\<exists>s. epoch_loop ps mn rnd [0..<e] st = Inr s \<and> epoch_body ps mn rnd e s = Inr st')"
  by (simp add: epoch_loop_append ebind_eq_Inr)

lemma decay_step_rate:
  assumes "0 < interval ps"
  shows "decay_step ps (Suc e) (spec_rate ps e) = Inr (spec_rate ps (Suc e))"
proof -
  obtain n where n: "interval ps = int n" "0 < n"
    using zero_less_imp_eq_int [OF assms] by auto
  have "int (Suc e) mod int n = 0 \<longleftrightarrow> Suc e mod n = 0"
    by (metis of_nat_eq_0_iff of_nat_mod)
  then show ?thesis
    using n by (simp add: decay_step_def spec_rate_def div_Suc del: of_nat_Suc)
qed

lemma epoch_loop_LR:
  assumes "0 < interval ps"
    and "epoch_loop ps mn rnd [0..<e] (train_init model model_grads ps) = Inr st"
  shows "st_LR st = spec_rate ps (e - 1) \<and> st_draws st = e * n_train mn"
  using assms(2)
proof (induction e arbitrary: st)
  case 0
  then show ?case by (auto simp: train_init_def spec_rate_def)
next
  case (Suc e)
  from Suc.prems obtain s where s: "epoch_loop ps mn rnd [0..<e] (train_init model model_grads ps) = Inr s"
    and body: "epoch_body ps mn rnd e s = Inr st"
    unfolding epoch_loop_snoc by blast
  from Suc.IH [OF s] have LR: "st_LR s = spec_rate ps (e - 1)" and dr: "st_draws s = e * n_train mn"
    by simp_all
  from epoch_body_LR [OF body] have step: "decay_step ps e (st_LR s) = Inr (st_LR st)"
    and dr': "st_draws st = st_draws s + n_train mn" by simp_all
  have "st_LR st = spec_rate ps e"
  proof (cases e)
    case 0
    with step LR show ?thesis by (simp add: decay_step_def)
  next
    case (Suc e')
    with step LR decay_step_rate [OF assms(1), of e'] show ?thesis by simp
  qed
  with dr dr' show ?case by simp
qed

lemma decay_step_at:
  assumes "0 < interval ps"
  shows "decay_step ps e (spec_rate ps (e - 1)) = Inr (spec_rate ps e)"
proof (cases e)
  case 0
  then show ?thesis by (simp add: decay_step_def)
next
  case (Suc e')
  with decay_step_rate [OF assms, of e'] show ?thesis by simp
qed

subsection \<open>A sample-step on well-shaped data\<close>

lemma randint_index: "0 < n \<Longrightarrow> randint r 0 (int n - 1) = Inr (int (r mod n))"
  by (simp add: randint_def zmod_int)

lemma py_get_nat: "i < length xs \<Longrightarrow> py_get xs (int i) = Inr (xs ! i)"
  by (simp add: py_get_def py_index_def)

lemma argmax_from_bound: "bi < i \<Longrightarrow> argmax_from bi bv i vs < i + length vs"
proof (induction vs arbitrary: bi bv i)
  case Nil
  then show ?case by simp
next
  case (Cons a vs)
  have "argmax_from i a (Suc i) vs < Suc i + length vs"
    by (rule Cons.IH) simp
  moreover have "argmax_from bi bv (Suc i) vs < Suc i + length vs"
    by (rule Cons.IH) (use Cons.prems in simp)
  ultimately show ?case by simp
qed

lemma np_argmax_ok: "f \<noteq> [] \<Longrightarrow> \<exists>a. np_argmax f = Inr a \<and> a < length f"
proof (cases f)
  case Nil
  assume "f \<noteq> []"
  with Nil show ?thesis by simp
next
  case (Cons v vs)
  have "argmax_from 0 v 1 vs < 1 + length vs"
    by (rule argmax_from_bound) simp
  with Cons show ?thesis by (simp add: np_argmax_def)
qed

lemma spec_forward_lengths:
  assumes "shaped hn d k model" "spec_forward x model func = (z, h, p)"
  shows "length z = hn" "length h = hn" "length p = k"
  using assms
  by (auto simp: spec_forward_def shaped_def Let_def spec_softmax_def is_mat_nrows)

lemma spec_backprop_shapes:
  assumes "shaped hn d k model" "length p = k" "length z = hn" "length h = hn" "length x = d"
  shows "is_mat hn d (W (spec_backprop x y p z h model func))"
    and "is_mat k hn (C (spec_backprop x y p z h model func))"
    and "length (b1 (spec_backprop x y p z h model func)) = hn"
    and "length (b2 (spec_backprop x y p z h model func)) = k"
proof -
  have C: "ncols (C model) = hn" using assms(1) by (simp add: shaped_def is_mat_def)
  have l2: "length (spec_vsub (spec_one_hot (length p) y) p) = k"
    using assms(2) by (simp add: spec_vsub_def spec_one_hot_def)
  have l1: "length (spec_vmul (spec_tmatvec (C model) (spec_vsub (spec_one_hot (length p) y) p))
              (spec_activate_derivative func z)) = hn"
    using C by simp
  show "is_mat hn d (W (spec_backprop x y p z h model func))"
    using is_mat_spec_outer [of "spec_vmul (spec_tmatvec (C model) (spec_vsub (spec_one_hot (length p) y) p))
              (spec_activate_derivative func z)" x] l1 assms(5)
    by (simp add: spec_backprop_def Let_def)
  show "is_mat k hn (C (spec_backprop x y p z h model func))"
    using is_mat_spec_outer [of "spec_vsub (spec_one_hot (length p) y) p" h] l2 assms(4)
    by (simp add: spec_backprop_def Let_def)
  show "length (b1 (spec_backprop x y p z h model func)) = hn"
    using l1 by (simp add: spec_backprop_def Let_def)
  show "length (b2 (spec_backprop x y p z h model func)) = k"
    using l2 by (simp add: spec_backprop_def Let_def)
qed

lemma shaped_spec_update: "shaped hn d k model \<Longrightarrow> shaped hn d k (spec_update model rate g)"
  by (simp add: shaped_def spec_update_def is_mat_spec_maxpy)

lemma update_spec:
  assumes "shaped hn d k model" "shaped hn d k g"
  shows "mat_add (W model) (scal_mat rate (W g)) = Inr (W (spec_update model rate g))"
    and "mat_add (C model) (scal_mat rate (C g)) = Inr (C (spec_update model rate g))"
    and "np_add (b1 model) (scal_vec rate (b1 g)) = Inr (b1 (spec_update model rate g))"
    and "np_add (b2 model) (scal_vec rate (b2 g)) = Inr (b2 (spec_update model rate g))"
  using assms
  by (simp_all add: shaped_def spec_update_def np_add_scal_same mat_add_scal_spec [where m = hn and n = d]
        mat_add_scal_spec [where m = k and n = hn])

lemma sample_step_ok:
  assumes ok: "train_ok d k ps mn" and sh: "shaped hn d k (st_model st)"
  shows "\<exists>g c. sample_step ps mn rnd st =
           Inr (st\<lparr>st_model := spec_sgd ps mn (st_LR st) (rnd (st_draws st) mod n_train mn) (st_model st),
                   st_grads := g, st_correct := c, st_draws := st_draws st + 1\<rparr>)
         \<and> shaped hn d k (spec_sgd ps mn (st_LR st) (rnd (st_draws st) mod n_train mn) (st_model st))"
proof -
  let ?i = "rnd (st_draws st) mod n_train mn"
  let ?x = "rows (x_train mn) ! ?i" and ?y = "y_train mn ! ?i"
  let ?func = "sigma_arg ps" and ?m = "st_model st"
  have func: "?func = ''tanh'' \<or> ?func = ''sigmoid''" and N: "0 < n_train mn"
    and X: "is_mat (n_train mn) d (x_train mn)" and Y: "length (y_train mn) = n_train mn"
    and L: "list_all (\<lambda>y. 0 \<le> y \<and> y < int k) (y_train mn)"
    using ok by (simp_all add: train_ok_def train_data_ok_def)
  have i: "?i < n_train mn" using N by simp
  have lx: "length ?x = d" using X i by (rule is_mat_row)
  have ly: "0 \<le> ?y" "?y < int k" using L i Y by (simp_all add: list_all_length)
  obtain z h p where zhp: "spec_forward ?x ?m ?func = (z, h, p)"
    by (cases "spec_forward ?x ?m ?func") auto
  note lens = spec_forward_lengths [OF sh zhp]
  have k: "p \<noteq> []" using ly lens(3) by auto
  then obtain a where a: "np_argmax p = Inr a" using np_argmax_ok by blast
  let ?g = "spec_backprop ?x ?y p z h ?m ?func"
  have g: "spec_grad ps mn ?i ?m = ?g"
    by (simp add: spec_grad_def zhp Let_def)
  have shg: "shaped hn d k ?g"
    using spec_backprop_shapes [OF sh lens(3) lens(1) lens(2) lx] by (simp add: shaped_def)
  have 1: "randint (rnd (st_draws st)) 0 (int (n_train mn) - 1) = Inr (int ?i)"
    using N by (rule randint_index)
  have 2: "py_get (y_train mn) (int ?i) = Inr ?y"
    using i Y by (simp add: py_get_nat)
  have 3: "py_get (rows (x_train mn)) (int ?i) = Inr ?x"
    using i X by (simp add: py_get_nat is_mat_def)
  have 4: "forward ?x ?m ?func = Inr (z, h, p)"
    using forward_spec [OF sh lx func] zhp by simp
  have 5: "backprop ?x ?y p z h ?m (st_grads st) ?func = Inr ?g"
    using func ly lens(3) _ lens(1)
    by (rule backprop_spec) (use sh in \<open>simp add: shaped_def\<close>)
  note 6 = update_spec [OF sh shg, of "st_LR st"]
  have "spec_update ?m (st_LR st) ?g = spec_sgd ps mn (st_LR st) ?i ?m"
    by (simp add: spec_sgd_def g)
  moreover have "\<lparr>W = W (spec_update ?m (st_LR st) ?g), C = C (spec_update ?m (st_LR st) ?g),
      b1 = b1 (spec_update ?m (st_LR st) ?g), b2 = b2 (spec_update ?m (st_LR st) ?g)\<rparr>
      = spec_update ?m (st_LR st) ?g"
    by simp
  ultimately have "sample_step ps mn rnd st =
      Inr (st\<lparr>st_model := spec_sgd ps mn (st_LR st) ?i ?m, st_grads := ?g,
              st_correct := (if int a = ?y then st_correct st + 1 else st_correct st),
              st_draws := st_draws st + 1\<rparr>)"
    by (simp add: sample_step_def 1 2 3 4 a 5 6 Let_def)
  moreover have "shaped hn d k (spec_sgd ps mn (st_LR st) ?i ?m)"
    using sh by (simp add: spec_sgd_def shaped_spec_update)
  ultimately show ?thesis by blast
qed

subsection \<open>The loops of training on well-shaped data\<close>

lemma sample_loop_ok:
  assumes ok: "train_ok d k ps mn"
  shows "shaped hn d k (st_model st) \<Longrightarrow>
     st_model st = spec_train ps mn rnd model0 (e * n_train mn + j) \<Longrightarrow>
     st_draws st = e * n_train mn + j \<Longrightarrow> st_LR st = spec_rate ps e \<Longrightarrow> j + n \<le> n_train mn \<Longrightarrow>
     \<exists>st'. sample_loop ps mn rnd n st = Inr st'
        \<and> shaped hn d k (st_model st')
        \<and> st_model st' = spec_train ps mn rnd model0 (e * n_train mn + j + n)
        \<and> st_draws st' = e * n_train mn + j + n \<and> st_LR st' = spec_rate ps e"
proof (induction n arbitrary: st j)
  case 0
  then show ?case by simp
next
  case (Suc n)
  let ?N = "n_train mn"
  from sample_step_ok [OF ok Suc.prems(1), of rnd]
  obtain g c where step: "sample_step ps mn rnd st =
           Inr (st\<lparr>st_model := spec_sgd ps mn (st_LR st) (rnd (st_draws st) mod ?N) (st_model st),
                   st_grads := g, st_correct := c, st_draws := st_draws st + 1\<rparr>)"
    and sh: "shaped hn d k (spec_sgd ps mn (st_LR st) (rnd (st_draws st) mod ?N) (st_model st))"
    by blast
  let ?s1 = "st\<lparr>st_model := spec_sgd ps mn (st_LR st) (rnd (st_draws st) mod ?N) (st_model st),
                   st_grads := g, st_correct := c, st_draws := st_draws st + 1\<rparr>"
  have j: "j < ?N" using Suc.prems(5) by simp
  then have ep: "(e * ?N + j) div ?N = e" by simp
  have m1: "st_model ?s1 = spec_train ps mn rnd model0 (e * ?N + Suc j)"
    using Suc.prems(2-4) by (simp add: ep)
  have "\<exists>st'. sample_loop ps mn rnd n ?s1 = Inr st'
        \<and> shaped hn d k (st_model st')
        \<and> st_model st' = spec_train ps mn rnd model0 (e * ?N + Suc j + n)
        \<and> st_draws st' = e * ?N + Suc j + n \<and> st_LR st' = spec_rate ps e"
  proof (rule Suc.IH)
    show "shaped hn d k (st_model ?s1)" using sh by simp
    show "st_model ?s1 = spec_train ps mn rnd model0 (e * ?N + Suc j)" by (rule m1)
    show "st_draws ?s1 = e * ?N + Suc j" using Suc.prems(3) by simp
    show "st_LR ?s1 = spec_rate ps e" using Suc.prems(4) by simp
    show "Suc j + n \<le> ?N" using Suc.prems(5) by simp
  qed
  then show ?case by (simp add: step)
qed

lemma epoch_body_ok:
  assumes ok: "train_ok d k ps mn" and pos: "0 < interval ps"
    and sh: "shaped hn d k (st_model st)"
    and m: "st_model st = spec_train ps mn rnd model0 (e * n_train mn)"
    and dr: "st_draws st = e * n_train mn" and LR: "st_LR st = spec_rate ps (e - 1)"
  shows "\<exists>st'. epoch_body ps mn rnd e st = Inr st'
        \<and> shaped hn d k (st_model st')
        \<and> st_model st' = spec_train ps mn rnd model0 (Suc e * n_train mn)
        \<and> st_draws st' = Suc e * n_train mn \<and> st_LR st' = spec_rate ps e"
proof -
  let ?N = "n_train mn"
  let ?s0 = "st\<lparr>st_LR := spec_rate ps e, st_correct := 0\<rparr>"
  have N: "0 < ?N" using ok by (simp add: train_ok_def train_data_ok_def)
  have d: "decay_step ps e (st_LR st) = Inr (spec_rate ps e)"
    using decay_step_at [OF pos, of e] LR by simp
  have "\<exists>st'. sample_loop ps mn rnd ?N ?s0 = Inr st'
        \<and> shaped hn d k (st_model st')
        \<and> st_model st' = spec_train ps mn rnd model0 (e * ?N + 0 + ?N)
        \<and> st_draws st' = e * ?N + 0 + ?N \<and> st_LR st' = spec_rate ps e"
    by (rule sample_loop_ok [OF ok]) (use sh m dr in simp_all)
  then obtain s1 where s1: "sample_loop ps mn rnd ?N ?s0 = Inr s1" "shaped hn d k (st_model s1)"
    "st_model s1 = spec_train ps mn rnd model0 (Suc e * ?N)" "st_draws s1 = Suc e * ?N"
    "st_LR s1 = spec_rate ps e"
    by (auto simp: add.commute)
  show ?thesis
    using N s1 by (simp add: epoch_body_def d)
qed

lemma epoch_loop_ok:
  assumes ok: "train_ok d k ps mn" and pos: "0 < interval ps" and sh: "shaped hn d k model"
  shows "\<exists>st. epoch_loop ps mn rnd [0..<e] (train_init model model_grads ps) = Inr st
        \<and> shaped hn d k (st_model st)
        \<and> st_model st = spec_train ps mn rnd model (e * n_train mn)
        \<and> st_draws st = e * n_train mn \<and> st_LR st = spec_rate ps (e - 1)"
proof (induction e)
  case 0
  show ?case using sh by (simp add: train_init_def spec_rate_def)
next
  case (Suc e)
  then obtain s where s: "epoch_loop ps mn rnd [0..<e] (train_init model model_grads ps) = Inr s"
    "shaped hn d k (st_model s)" "st_model s = spec_train ps mn rnd model (e * n_train mn)"
    "st_draws s = e * n_train mn" "st_LR s = spec_rate ps (e - 1)"
    by blast
  from epoch_body_ok [OF ok pos s(2-5)]
  obtain st' where st': "epoch_body ps mn rnd e s = Inr st'" "shaped hn d k (st_model st')"
    "st_model st' = spec_train ps mn rnd model (Suc e * n_train mn)"
    "st_draws st' = Suc e * n_train mn" "st_LR st' = spec_rate ps e"
    by blast
  have "epoch_loop ps mn rnd [0..<Suc e] (train_init model model_grads ps) = Inr st'"
    unfolding epoch_loop_snoc using s(1) st'(1) by blast
  with st' show ?case by auto
qed

text \<open>
  C4. On \<open>N\<^sub>1 \<ge> 1\<close> training samples of the model's input length with labels in \<open>[0, K)\<close>, a
  well-shaped parameter bundle, one of the two activations and a positive decay interval,
  training returns, and its result is the parameter bundle after \<open>n_epochs \<cdot> N\<^sub>1\<close>
  sample-steps, each of which replaces every tensor by itself plus the learning rate times
  the gradient that the backward pass gives for the drawn sample (the draw is an index of
  the training set, repeats allowed). After \<open>e\<close> epochs exactly \<open>e \<cdot> N\<^sub>1\<close> draws have been
  made, that is \<open>N\<^sub>1\<close> sample-steps in every epoch.
\<close>

theorem training_loop:
  assumes "train_ok d k ps mn" "shaped hn d k model" "0 < interval ps"
  shows "nn_train model model_grads ps mn rnd
           = Inr (spec_train ps mn rnd model (nat (n_epochs ps) * n_train mn))
     \<and> (\<exists>st. epoch_loop ps mn rnd [0..<e] (train_init model model_grads ps) = Inr st
            \<and> st_draws st = e * n_train mn
            \<and> st_model st = spec_train ps mn rnd model (e * n_train mn))"
proof -
  from epoch_loop_ok [OF assms(1,3,2), of rnd "nat (n_epochs ps)" model_grads]
  have "nn_train model model_grads ps mn rnd
           = Inr (spec_train ps mn rnd model (nat (n_epochs ps) * n_train mn))"
    by (auto simp: nn_train_def)
  moreover from epoch_loop_ok [OF assms(1,3,2), of rnd e model_grads]
  have "\<exists>st. epoch_loop ps mn rnd [0..<e] (train_init model model_grads ps) = Inr st
            \<and> st_draws st = e * n_train mn
            \<and> st_model st = spec_train ps mn rnd model (e * n_train mn)"
    by blast
  ultimately show ?thesis by blast
qed

lemma ex_train_ok: "train_ok 1 2 ex_params ex_mnist"
  by (simp add: train_ok_def train_data_ok_def ex_params_def ex_mnist_def is_mat_def)

theorem training_loop_witness:
  "nn_train ex_model ex_model ex_params ex_mnist (\<lambda>t. t) = Inr (spec_train ex_params ex_mnist (\<lambda>t. t) ex_model 40)
   \<and> (\<exists>st. epoch_loop ex_params ex_mnist (\<lambda>t. t) [0..<3] (train_init ex_model ex_model ex_params) = Inr st
          \<and> st_draws st = 6)"
proof -
  have "0 < interval ex_params" by (simp add: ex_params_def)
  from training_loop [OF ex_train_ok ex_model_shaped this, of ex_model "\<lambda>t. t" 3]
  show ?thesis by (auto simp: ex_params_def ex_mnist_def)
qed

text \<open>
  C3. With a positive decay interval, the learning rate that the top of epoch \<open>e\<close>
  (counted from 0) sets, and with which that epoch ends, is
  \<open>lr \<cdot> decay ^ (e div interval)\<close>; no sample-step changes the rate, and the top of an
  epoch multiplies it by the decay exactly when the epoch index is positive and
  divisible by the interval. The sample loop of epoch \<open>e\<close> starts with this rate in the
  state and keeps it, and a sample-step on well-shaped data adds the gradient times the
  rate of its state. The instance gives
  \<open>1/10\<close>, \<open>1/100\<close>, \<open>1/1000\<close>, \<open>1/10000\<close> for the epochs 0, 5, 10, 15 with interval 5,
  decay \<open>1/10\<close> and initial rate \<open>1/10\<close>.
\<close>

theorem learning_rate_schedule:
  assumes "0 < interval ps"
    and "epoch_loop ps mn rnd [0..<e] (train_init model model_grads ps) = Inr st"
  shows "decay_step ps e (st_LR st) = Inr (lr ps * decay ps ^ (e div nat (interval ps)))
     \<and> (\<forall>st'. epoch_body ps mn rnd e st = Inr st' \<longrightarrow>
           st_LR st' = lr ps * decay ps ^ (e div nat (interval ps)))
     \<and> (\<forall>s s'. sample_step ps mn rnd s = Inr s' \<longrightarrow> st_LR s' = st_LR s)
     \<and> (\<forall>r. decay_step ps e r = Inr (if 0 < e \<and> interval ps dvd int e then r * decay ps else r))
     \<and> epoch_body ps mn rnd e st =
         ebind (sample_loop ps mn rnd (n_train mn)
                  (st\<lparr>st_LR := lr ps * decay ps ^ (e div nat (interval ps)), st_correct := 0\<rparr>))
           (\<lambda>st'. if n_train mn = 0 then Inl ZeroDivisionError
                  else Inr (st'\<lparr>st_out := st_out st' @ [(e, real (st_correct st') / real (n_train mn))]\<rparr>))
     \<and> (\<forall>k s s'. sample_loop ps mn rnd k s = Inr s' \<longrightarrow> st_LR s' = st_LR s)
     \<and> (\<forall>d k hn s. train_ok d k ps mn \<and> shaped hn d k (st_model s) \<longrightarrow>
           (\<exists>s'. sample_step ps mn rnd s = Inr s'
              \<and> st_model s' = spec_sgd ps mn (st_LR s) (rnd (st_draws s) mod n_train mn) (st_model s)))"
proof -
  have 4: "decay_step ps e r = Inr (if 0 < e \<and> interval ps dvd int e then r * decay ps else r)" for r
    using assms(1) by (auto simp: decay_step_def mod_eq_0_iff_dvd)
  from epoch_loop_LR [OF assms] have "st_LR st = spec_rate ps (e - 1)" by simp
  with decay_step_at [OF assms(1), of e]
  have 1: "decay_step ps e (st_LR st) = Inr (lr ps * decay ps ^ (e div nat (interval ps)))"
    by (simp add: spec_rate_def)
  have 2: "st_LR st' = lr ps * decay ps ^ (e div nat (interval ps))"
    if "epoch_body ps mn rnd e st = Inr st'" for st'
    using epoch_body_LR [OF that] 1 by simp
  have 3: "st_LR s' = st_LR s" if "sample_step ps mn rnd s = Inr s'" for s s'
    using sample_step_LR [OF that] by simp
  have 5: "epoch_body ps mn rnd e st =
         ebind (sample_loop ps mn rnd (n_train mn)
                  (st\<lparr>st_LR := lr ps * decay ps ^ (e div nat (interval ps)), st_correct := 0\<rparr>))
           (\<lambda>st'. if n_train mn = 0 then Inl ZeroDivisionError
                  else Inr (st'\<lparr>st_out := st_out st' @ [(e, real (st_correct st') / real (n_train mn))]\<rparr>))"
    unfolding epoch_body_def 1 by simp
  have 6: "st_LR s' = st_LR s" if "sample_loop ps mn rnd k s = Inr s'" for k s s'
    using sample_loop_LR [OF that] by simp
  have 7: "\<exists>s'. sample_step ps mn rnd s = Inr s'
              \<and> st_model s' = spec_sgd ps mn (st_LR s) (rnd (st_draws s) mod n_train mn) (st_model s)"
    if "train_ok d k ps mn" "shaped hn d k (st_model s)" for d k hn s
    using sample_step_ok [OF that, of rnd] by auto
  from 1 2 3 4 5 6 7 show ?thesis by blast
qed


theorem learning_rate_schedule_witness:
  "(\<exists>st. epoch_loop ex_params ex_mnist (\<lambda>t. t) [0..<0] (train_init ex_model ex_model ex_params) = Inr st
       \<and> decay_step ex_params 0 (st_LR st) = Inr (1 / 10))
   \<and> (\<exists>st. epoch_loop ex_params ex_mnist (\<lambda>t. t) [0..<5] (train_init ex_model ex_model ex_params) = Inr st
       \<and> decay_step ex_params 5 (st_LR st) = Inr (1 / 100))
   \<and> (\<exists>st. epoch_loop ex_params ex_mnist (\<lambda>t. t) [0..<10] (train_init ex_model ex_model ex_params) = Inr st
       \<and> decay_step ex_params 10 (st_LR st) = Inr (1 / 1000))
   \<and> (\<exists>st. epoch_loop ex_params ex_mnist (\<lambda>t. t) [0..<15] (train_init ex_model ex_model ex_params) = Inr st
       \<and> decay_step ex_params 15 (st_LR st) = Inr (1 / 10000))"
proof -
  have pos: "0 < interval ex_params" by (simp add: ex_params_def)
  have run: "\<exists>st. epoch_loop ex_params ex_mnist (\<lambda>t. t) [0..<e] (train_init ex_model ex_model ex_params) = Inr st
       \<and> decay_step ex_params e (st_LR st) = Inr (lr ex_params * decay ex_params ^ (e div nat (interval ex_params)))" for e
  proof -
    from epoch_loop_ok [OF ex_train_ok pos ex_model_shaped, of "\<lambda>t. t" e ex_model]
    obtain st where st: "epoch_loop ex_params ex_mnist (\<lambda>t. t) [0..<e] (train_init ex_model ex_model ex_params) = Inr st"
      by blast
    from learning_rate_schedule [OF pos st] st show ?thesis by blast
  qed
  have v: "lr ex_params * decay ex_params ^ (0 div nat (interval ex_params)) = 1 / 10"
    "lr ex_params * decay ex_params ^ (5 div nat (interval ex_params)) = 1 / 100"
    "lr ex_params * decay ex_params ^ (10 div nat (interval ex_params)) = 1 / 1000"
    "lr ex_params * decay ex_params ^ (15 div nat (interval ex_params)) = 1 / 10000"
    by (simp_all add: ex_params_def power_divide)
  from run [of 0] run [of 5] run [of 10] run [of 15] show ?thesis
    unfolding v by blast
qed

subsection \<open>Where the process can end in \<^verbatim>\<open>sys.exit\<close>\<close>

lemma is_exit_simps [simp]:
  "is_exit (Inr v) = False" "is_exit (Inl (SystemExit msg)) = True"
  "is_exit (Inl ValueError) = False" "is_exit (Inl IndexError) = False"
  "is_exit (Inl ZeroDivisionError) = False"
  by (simp_all add: is_exit_def)

lemma is_exit_ebind: "is_exit (ebind m f) \<longleftrightarrow> is_exit m \<or> (\<exists>v. m = Inr v \<and> is_exit (f v))"
  by (cases m) (simp_all add: is_exit_def)

lemma no_exit_numpy [simp]:
  "\<not> is_exit (elementwise g a b)" "\<not> is_exit (np_add a b)" "\<not> is_exit (np_multiply a b)"
  "\<not> is_exit (mat_add A B)" "\<not> is_exit (np_dot A x)" "\<not> is_exit (np_argmax a)"
  by (simp_all add: elementwise_def np_add_def np_multiply_def mat_add_def np_dot_def np_argmax_def
        split: option.splits list.splits)

lemma no_exit_index [simp]:
  "\<not> is_exit (py_index n i)" "\<not> is_exit (py_get xs i)" "\<not> is_exit (randint r lo hi)"
  "\<not> is_exit (plot_predict x y pred figs)" "\<not> is_exit (decay_step ps e rate)"
  by (simp_all add: py_index_def py_get_def randint_def plot_predict_def decay_step_def
        is_exit_ebind Let_def)

lemma no_exit_sigma:
  "func = ''tanh'' \<or> func = ''sigmoid'' \<Longrightarrow> \<not> is_exit (sigma z func) \<and> \<not> is_exit (d_sigma z func)"
  by (auto simp: sigma_def d_sigma_def)

lemma no_exit_forward:
  "func = ''tanh'' \<or> func = ''sigmoid'' \<Longrightarrow> \<not> is_exit (forward x model func)"
  by (simp add: forward_def is_exit_ebind no_exit_sigma)

lemma no_exit_backprop:
  "func = ''tanh'' \<or> func = ''sigmoid'' \<Longrightarrow> \<not> is_exit (backprop x y f Z H model model_grads func)"
  by (simp add: backprop_def is_exit_ebind no_exit_sigma Let_def)

lemma no_exit_sample_step:
  "sigma_arg ps = ''tanh'' \<or> sigma_arg ps = ''sigmoid'' \<Longrightarrow> \<not> is_exit (sample_step ps mn rnd st)"
  by (simp add: sample_step_def is_exit_ebind no_exit_forward no_exit_backprop Let_def split: prod.splits)

lemma no_exit_sample_loop:
  "sigma_arg ps = ''tanh'' \<or> sigma_arg ps = ''sigmoid'' \<Longrightarrow> \<not> is_exit (sample_loop ps mn rnd n st)"
  by (induction n arbitrary: st) (simp_all add: is_exit_ebind no_exit_sample_step)

lemma no_exit_epoch_body:
  "sigma_arg ps = ''tanh'' \<or> sigma_arg ps = ''sigmoid'' \<Longrightarrow> \<not> is_exit (epoch_body ps mn rnd e st)"
  by (simp add: epoch_body_def is_exit_ebind no_exit_sample_loop)

lemma no_exit_epoch_loop:
  "sigma_arg ps = ''tanh'' \<or> sigma_arg ps = ''sigmoid'' \<Longrightarrow> \<not> is_exit (epoch_loop ps mn rnd es st)"
  by (induction es arbitrary: st) (simp_all add: is_exit_ebind no_exit_epoch_body)

lemma no_exit_test_step:
  "sigma_arg ps = ''tanh'' \<or> sigma_arg ps = ''sigmoid'' \<Longrightarrow> \<not> is_exit (test_step model ps mn n st)"
  by (simp add: test_step_def is_exit_ebind no_exit_forward Let_def split: prod.splits)

lemma no_exit_test_loop:
  "sigma_arg ps = ''tanh'' \<or> sigma_arg ps = ''sigmoid'' \<Longrightarrow> \<not> is_exit (test_loop model ps mn ns st)"
  by (induction ns arbitrary: st) (simp_all add: is_exit_ebind no_exit_test_step)

text \<open>
  C10. With the activation \<^verbatim>\<open>tanh\<close> or \<^verbatim>\<open>sigmoid\<close>, every call of \<^verbatim>\<open>sigma\<close> and of
  \<^verbatim>\<open>d_sigma\<close> returns an array, and neither the forward pass, the backward pass,
  building the model, training nor evaluation ends in \<^verbatim>\<open>sys.exit\<close>, whatever the data
  and the parameters.
\<close>

theorem no_fatal_exit:
  assumes "sigma_arg ps = ''tanh'' \<or> sigma_arg ps = ''sigmoid''"
  shows "(\<exists>a. sigma z (sigma_arg ps) = Inr a) \<and> (\<exists>a. d_sigma z (sigma_arg ps) = Inr a)
     \<and> \<not> is_exit (forward x model (sigma_arg ps))
     \<and> \<not> is_exit (backprop x y f Z H model model_grads (sigma_arg ps))
     \<and> \<not> is_exit (init_model g mn ps)
     \<and> \<not> is_exit (nn_train model model_grads ps mn rnd)
     \<and> \<not> is_exit (nn_test model ps mn)"
proof -
  have "\<exists>a. sigma z (sigma_arg ps) = Inr a" "\<exists>a. d_sigma z (sigma_arg ps) = Inr a"
    using assms by (auto simp: sigma_def d_sigma_def)
  moreover have "\<not> is_exit (init_model g mn ps)"
    by (simp add: init_model_def Let_def)
  moreover have "\<not> is_exit (nn_train model model_grads ps mn rnd)"
    using assms by (simp add: nn_train_def is_exit_ebind no_exit_epoch_loop)
  moreover have "\<not> is_exit (nn_test model ps mn)"
    using assms by (simp add: nn_test_def is_exit_ebind no_exit_test_loop)
  ultimately show ?thesis
    using assms by (simp add: no_exit_forward no_exit_backprop)
qed

theorem no_fatal_exit_witness:
  "sigma [0] ''sigmoid'' = Inr [1 / 2] \<and> d_sigma [0] ''sigmoid'' = Inr [1 / 4]
   \<and> \<not> is_exit (nn_train ex_model ex_model (ex_params\<lparr>sigma_arg := ''sigmoid''\<rparr>) ex_mnist (\<lambda>t. t))
   \<and> \<not> is_exit (nn_test ex_model (ex_params\<lparr>sigma_arg := ''sigmoid''\<rparr>) ex_mnist)"
proof -
  have "sigma_arg (ex_params\<lparr>sigma_arg := ''sigmoid''\<rparr>) = ''tanh''
      \<or> sigma_arg (ex_params\<lparr>sigma_arg := ''sigmoid''\<rparr>) = ''sigmoid''"
    by simp
  from no_fatal_exit [OF this, where z = "[0]" and model = ex_model and model_grads = ex_model
      and mn = ex_mnist and rnd = "\<lambda>t. t"]
  show ?thesis by (simp add: sigma_def d_sigma_def)
qed

subsection \<open>An unsupported activation\<close>

lemma sigma_unsupported:
  "func \<noteq> ''tanh'' \<Longrightarrow> func \<noteq> ''sigmoid'' \<Longrightarrow>
   sigma z func = Inl (SystemExit ''Unsupported function type!'')
   \<and> d_sigma z func = Inl (SystemExit ''Unsupported function type!'')"
  by (simp add: sigma_def d_sigma_def)

lemma forward_unsupported:
  assumes "func \<noteq> ''tanh''" "func \<noteq> ''sigmoid''"
    and "is_mat hn d (W model)" "length (b1 model) = hn" "length x = d"
  shows "forward x model func = Inl (SystemExit ''Unsupported function type!'')"
proof -
  have 1: "np_dot (W model) x = Inr (spec_matvec (W model) x)"
    using assms(3,5) by (rule np_dot_spec)
  have 2: "np_add (spec_matvec (W model) x) (b1 model) = Inr (spec_vadd (spec_matvec (W model) x) (b1 model))"
    using assms(3,4) by (simp add: np_add_same is_mat_nrows)
  show ?thesis
    using assms(1,2) by (simp add: forward_def 1 2 sigma_unsupported)
qed

lemma sample_step_unsupported:
  assumes "sigma_arg ps \<noteq> ''tanh''" "sigma_arg ps \<noteq> ''sigmoid''"
    and data: "train_data_ok d k mn" and sh: "shaped hn d k (st_model st)"
  shows "sample_step ps mn rnd st = Inl (SystemExit ''Unsupported function type!'')"
proof -
  let ?i = "rnd (st_draws st) mod n_train mn"
  have N: "0 < n_train mn" and X: "is_mat (n_train mn) d (x_train mn)"
    and Y: "length (y_train mn) = n_train mn"
    using data by (simp_all add: train_data_ok_def)
  have i: "?i < n_train mn" using N by simp
  have lx: "length (rows (x_train mn) ! ?i) = d" using X i by (rule is_mat_row)
  have 1: "randint (rnd (st_draws st)) 0 (int (n_train mn) - 1) = Inr (int ?i)"
    using N by (rule randint_index)
  have 2: "py_get (y_train mn) (int ?i) = Inr (y_train mn ! ?i)"
    using i Y by (simp add: py_get_nat)
  have 3: "py_get (rows (x_train mn)) (int ?i) = Inr (rows (x_train mn) ! ?i)"
    using i X by (simp add: py_get_nat is_mat_def)
  have 4: "forward (rows (x_train mn) ! ?i) (st_model st) (sigma_arg ps)
      = Inl (SystemExit ''Unsupported function type!'')"
    using assms(1,2) _ _ lx
    by (rule forward_unsupported) (use sh in \<open>simp_all add: shaped_def\<close>)
  show ?thesis
    by (simp add: sample_step_def 1 2 3 4)
qed

lemma nn_train_unsupported:
  assumes "sigma_arg ps \<noteq> ''tanh''" "sigma_arg ps \<noteq> ''sigmoid''"
    and data: "train_data_ok d k mn" and sh: "shaped hn d k model" and ep: "0 < n_epochs ps"
  shows "nn_train model model_grads ps mn rnd = Inl (SystemExit ''Unsupported function type!'')"
proof -
  let ?st = "(train_init model model_grads ps)\<lparr>st_LR := lr ps, st_correct := 0\<rparr>"
  have N: "0 < n_train mn" using data by (simp add: train_data_ok_def)
  have "shaped hn d k (st_model ?st)" using sh by (simp add: train_init_def)
  with assms(1,2) data have step: "sample_step ps mn rnd ?st = Inl (SystemExit ''Unsupported function type!'')"
    by (rule sample_step_unsupported)
  obtain n where n: "n_train mn = Suc n" using N by (cases "n_train mn") auto
  have "sample_loop ps mn rnd (n_train mn) ?st = Inl (SystemExit ''Unsupported function type!'')"
    unfolding n sample_loop.simps step by simp
  moreover have "decay_step ps 0 (st_LR (train_init model model_grads ps)) = Inr (lr ps)"
    by (simp add: decay_step_def train_init_def)
  ultimately have body: "epoch_body ps mn rnd 0 (train_init model model_grads ps)
      = Inl (SystemExit ''Unsupported function type!'')"
    unfolding epoch_body_def by simp
  obtain e where e: "nat (n_epochs ps) = Suc e" using ep by (cases "nat (n_epochs ps)") auto
  have "[0..<nat (n_epochs ps)] = 0 # [1..<Suc e]"
    by (simp add: e upt_conv_Cons)
  then show ?thesis
    by (simp add: nn_train_def body)
qed

lemma nn_train_no_epochs: "n_epochs ps \<le> 0 \<Longrightarrow> nn_train model model_grads ps mn rnd = Inr model"
  by (simp add: nn_train_def train_init_def)

text \<open>
  C5, as amended. With an activation other than \<^verbatim>\<open>tanh\<close> and \<^verbatim>\<open>sigmoid\<close>, every call of
  \<^verbatim>\<open>sigma\<close> and of \<^verbatim>\<open>d_sigma\<close> ends the process with the message
  \<^verbatim>\<open>Unsupported function type!\<close>. Building the model does not read the activation, so
  nothing is detected there; the exit is raised per call, by the first forward pass in
  the training loop when there is training data for a well-shaped model and at least one
  epoch, and with no epoch training returns the model.
\<close>

theorem unsupported_activation:
  assumes "sigma_arg ps \<noteq> ''tanh''" "sigma_arg ps \<noteq> ''sigmoid''"
  shows "sigma z (sigma_arg ps) = Inl (SystemExit ''Unsupported function type!'')
     \<and> d_sigma z (sigma_arg ps) = Inl (SystemExit ''Unsupported function type!'')
     \<and> init_model g mn ps = init_model g mn (ps\<lparr>sigma_arg := ''tanh''\<rparr>)
     \<and> (train_data_ok d k mn \<and> shaped hn d k model \<and> 0 < n_epochs ps \<longrightarrow>
          nn_train model model_grads ps mn rnd = Inl (SystemExit ''Unsupported function type!''))
     \<and> (n_epochs ps \<le> 0 \<longrightarrow> nn_train model model_grads ps mn rnd = Inr model)"
proof -
  have "nn_train model model_grads ps mn rnd = Inl (SystemExit ''Unsupported function type!'')"
    if "train_data_ok d k mn" "shaped hn d k model" "0 < n_epochs ps"
    using assms that by (rule nn_train_unsupported)
  moreover have "init_model g mn ps = init_model g mn (ps\<lparr>sigma_arg := ''tanh''\<rparr>)"
    by (simp add: init_model_def)
  ultimately show ?thesis
    using assms by (simp add: sigma_unsupported nn_train_no_epochs)
qed

theorem unsupported_activation_witness:
  "sigma [0] ''relu'' = Inl (SystemExit ''Unsupported function type!'')
   \<and> nn_train ex_model ex_model (ex_params\<lparr>sigma_arg := ''relu''\<rparr>) ex_mnist (\<lambda>t. t)
       = Inl (SystemExit ''Unsupported function type!'')"
proof -
  have d: "train_data_ok 1 2 ex_mnist" using ex_train_ok by (simp add: train_ok_def)
  have "sigma_arg (ex_params\<lparr>sigma_arg := ''relu''\<rparr>) \<noteq> ''tanh''"
    "sigma_arg (ex_params\<lparr>sigma_arg := ''relu''\<rparr>) \<noteq> ''sigmoid''"
    by simp_all
  from unsupported_activation [OF this, where z = "[0]" and mn = ex_mnist and d = 1 and k = 2
      and hn = 1 and model = ex_model and model_grads = ex_model and rnd = "\<lambda>t. t"]
  show ?thesis using d ex_model_shaped by (simp add: ex_params_def)
qed

text \<open>
  C5 as stated fails: with the activation \<^verbatim>\<open>relu\<close> the model is built, the exit comes out
  of the training loop, and with zero epochs training returns without any exit.
\<close>

theorem unsupported_activation_counterexample:
  "init_model (\<lambda>i. 1) ex_mnist (ex_params\<lparr>sigma_arg := ''relu''\<rparr>) = Inr (ex_init, ex_init)
   \<and> nn_train ex_init ex_init (ex_params\<lparr>sigma_arg := ''relu''\<rparr>) ex_mnist (\<lambda>t. t)
       = Inl (SystemExit ''Unsupported function type!'')
   \<and> nn_train ex_init ex_init (ex_params\<lparr>sigma_arg := ''relu'', n_epochs := 0\<rparr>) ex_mnist (\<lambda>t. t)
       = Inr ex_init"
proof -
  have d: "train_data_ok 1 2 ex_mnist" using ex_train_ok by (simp add: train_ok_def)
  have sh: "shaped 1 1 2 ex_init" by (simp add: shaped_def ex_init_def is_mat_def)
  have 1: "init_model (\<lambda>i. 1) ex_mnist (ex_params\<lparr>sigma_arg := ''relu''\<rparr>) = Inr (ex_init, ex_init)"
    by (simp add: init_model_def ex_params_def ex_mnist_def ex_init_def div_mat_def div_vec_def
          randn2_def randn1_def Let_def upt_conv_Cons)
  have 2: "nn_train ex_init ex_init (ex_params\<lparr>sigma_arg := ''relu''\<rparr>) ex_mnist (\<lambda>t. t)
       = Inl (SystemExit ''Unsupported function type!'')"
    by (rule nn_train_unsupported [OF _ _ d sh]) (simp_all add: ex_params_def)
  have 3: "nn_train ex_init ex_init (ex_params\<lparr>sigma_arg := ''relu'', n_epochs := 0\<rparr>) ex_mnist (\<lambda>t. t)
       = Inr ex_init"
    by (rule nn_train_no_epochs) simp
  from 1 2 3 show ?thesis by blast
qed

subsection \<open>Arg-max\<close>

lemma argmax_from_first_max:
  assumes "bi < i" "drop i xs = vs" "i \<le> length xs" "xs ! bi = bv"
    and "\<forall>j<i. xs ! j \<le> bv" "\<forall>j<bi. xs ! j < bv"
  shows "argmax_from bi bv i vs < length xs
     \<and> (\<forall>j<length xs. xs ! j \<le> xs ! argmax_from bi bv i vs)
     \<and> (\<forall>j<argmax_from bi bv i vs. xs ! j < xs ! argmax_from bi bv i vs)"
  using assms
proof (induction vs arbitrary: bi bv i)
  case Nil
  then have "i = length xs" by simp
  with Nil show ?case by simp
next
  case (Cons v vs)
  have i: "i < length xs" using Cons.prems(2,3) by (cases "i = length xs") auto
  have v: "xs ! i = v" using Cons.prems(2) i by (metis nth_via_drop)
  have d: "drop (Suc i) xs = vs" using Cons.prems(2) by (metis drop_Suc tl_drop list.sel(3))
  show ?case
  proof (cases "bv < v")
    case True
    have "argmax_from i v (Suc i) vs < length xs
     \<and> (\<forall>j<length xs. xs ! j \<le> xs ! argmax_from i v (Suc i) vs)
     \<and> (\<forall>j<argmax_from i v (Suc i) vs. xs ! j < xs ! argmax_from i v (Suc i) vs)"
    proof (rule Cons.IH)
      show "i < Suc i" by simp
      show "drop (Suc i) xs = vs" by (rule d)
      show "Suc i \<le> length xs" using i by simp
      show "xs ! i = v" by (rule v)
      show "\<forall>j<Suc i. xs ! j \<le> v"
        using Cons.prems(5) True v by (auto simp: less_Suc_eq intro: order.trans less_imp_le)
      show "\<forall>j<i. xs ! j < v"
        using Cons.prems(5) True by (auto intro: le_less_trans)
    qed
    with True show ?thesis by simp
  next
    case False
    have "argmax_from bi bv (Suc i) vs < length xs
     \<and> (\<forall>j<length xs. xs ! j \<le> xs ! argmax_from bi bv (Suc i) vs)
     \<and> (\<forall>j<argmax_from bi bv (Suc i) vs. xs ! j < xs ! argmax_from bi bv (Suc i) vs)"
    proof (rule Cons.IH)
      show "bi < Suc i" using Cons.prems(1) by simp
      show "drop (Suc i) xs = vs" by (rule d)
      show "Suc i \<le> length xs" using i by simp
      show "xs ! bi = bv" by (rule Cons.prems(4))
      show "\<forall>j<Suc i. xs ! j \<le> bv"
        using Cons.prems(5) False v by (auto simp: less_Suc_eq)
      show "\<forall>j<bi. xs ! j < bv" by (rule Cons.prems(6))
    qed
    with False show ?thesis by simp
  qed
qed

lemma np_argmax_spec:
  assumes "f \<noteq> []"
  shows "np_argmax f = Inr (spec_argmax f)"
proof -
  obtain v vs where f: "f = v # vs" using assms by (cases f) auto
  let ?r = "argmax_from 0 v 1 vs"
  have r: "?r < length f \<and> (\<forall>j<length f. f ! j \<le> f ! ?r) \<and> (\<forall>j<?r. f ! j < f ! ?r)"
    by (rule argmax_from_first_max) (simp_all add: f)
  have "spec_argmax f = ?r"
    unfolding spec_argmax_def
  proof (rule Least_equality)
    show "?r < length f \<and> (\<forall>j<length f. f ! j \<le> f ! ?r)" using r by blast
  next
    fix i assume i: "i < length f \<and> (\<forall>j<length f. f ! j \<le> f ! i)"
    show "?r \<le> i"
    proof (rule ccontr)
      assume "\<not> ?r \<le> i"
      then have "f ! i < f ! ?r" using r by simp
      moreover have "f ! ?r \<le> f ! i" using i r by blast
      ultimately show False by simp
    qed
  qed
  then show ?thesis by (simp add: np_argmax_def f)
qed

subsection \<open>Evaluation on well-shaped data\<close>

lemma test_step_ok:
  assumes func: "sigma_arg ps = ''tanh'' \<or> sigma_arg ps = ''sigmoid''"
    and data: "test_data_ok 784 mn" and sh: "shaped hn 784 k model" and k: "0 < k"
    and n: "n < n_test mn" and inv: "test_inv ts st"
  shows "\<exists>st'. test_step model ps mn n st = Inr st' \<and> test_inv (ts @ [spec_prediction model ps mn n]) st'"
proof -
  let ?x = "rows (x_test mn) ! n" and ?y = "y_test mn ! n"
  have X: "is_mat (n_test mn) 784 (x_test mn)" and Y: "length (y_test mn) = n_test mn"
    using data by (simp_all add: test_data_ok_def)
  have lx: "length ?x = 784" using X n by (rule is_mat_row)
  obtain z h p where zhp: "spec_forward ?x model (sigma_arg ps) = (z, h, p)"
    by (cases "spec_forward ?x model (sigma_arg ps)") auto
  have "length p = k" using sh zhp by (rule spec_forward_lengths)
  with k have p: "p \<noteq> []" by auto
  let ?t = "(?x, ?y, spec_argmax p)"
  have t: "spec_prediction model ps mn n = ?t"
    by (simp add: spec_prediction_def zhp Let_def)
  have 1: "py_get (y_test mn) (int n) = Inr ?y"
    using n Y by (simp add: py_get_nat)
  have 2: "py_get (rows (x_test mn)) (int n) = Inr ?x"
    using n X by (simp add: py_get_nat is_mat_def)
  have 3: "forward ?x model (sigma_arg ps) = Inr (z, h, p)"
    using forward_spec [OF sh lx func] zhp by simp
  have 4: "np_argmax p = Inr (spec_argmax p)"
    using p by (rule np_argmax_spec)
  have 5: "plot_predict ?x ?y (spec_argmax p) figs = Inr (figs @ [?t])" for figs
    using lx by (simp add: plot_predict_def)
  have c: "correct ?t \<longleftrightarrow> int (spec_argmax p) = ?y"
    by (simp add: correct_def)
  show ?thesis
  proof (cases "int (spec_argmax p) = ?y")
    case True
    show ?thesis
    proof (cases "ts_correct st < 5")
      case less: True
      have "test_step model ps mn n st =
          Inr (st\<lparr>ts_total := ts_total st + 1, ts_correct := ts_correct st + 1,
                  ts_figs := ts_figs st @ [?t]\<rparr>)"
        using True less by (simp add: test_step_def 1 2 3 4 5 Let_def)
      moreover have "test_inv (ts @ [?t]) (st\<lparr>ts_total := ts_total st + 1,
          ts_correct := ts_correct st + 1, ts_figs := ts_figs st @ [?t]\<rparr>)"
        using inv True less c by (auto simp: test_inv_def min_def split: if_splits)
      ultimately show ?thesis by (simp add: t)
    next
      case full: False
      have "test_step model ps mn n st = Inr (st\<lparr>ts_total := ts_total st + 1\<rparr>)"
        using True full by (simp add: test_step_def 1 2 3 4 5 Let_def)
      moreover have "test_inv (ts @ [?t]) (st\<lparr>ts_total := ts_total st + 1\<rparr>)"
        using inv True full c by (auto simp: test_inv_def min_def split: if_splits)
      ultimately show ?thesis by (simp add: t)
    qed
  next
    case False
    show ?thesis
    proof (cases "ts_wrong st < 5")
      case less: True
      have "test_step model ps mn n st =
          Inr (st\<lparr>ts_wrong := ts_wrong st + 1, ts_figs := ts_figs st @ [?t]\<rparr>)"
        using False less by (simp add: test_step_def 1 2 3 4 5 Let_def)
      moreover have "test_inv (ts @ [?t]) (st\<lparr>ts_wrong := ts_wrong st + 1,
          ts_figs := ts_figs st @ [?t]\<rparr>)"
        using inv False less c by (auto simp: test_inv_def min_def split: if_splits)
      ultimately show ?thesis by (simp add: t)
    next
      case full: False
      have "test_step model ps mn n st = Inr st"
        using False full by (simp add: test_step_def 1 2 3 4 5 Let_def)
      moreover have "test_inv (ts @ [?t]) st"
        using inv False full c by (auto simp: test_inv_def min_def split: if_splits)
      ultimately show ?thesis by (simp add: t)
    qed
  qed
qed

lemma test_loop_append:
  "test_loop model ps mn (ns @ ms) st = ebind (test_loop model ps mn ns st) (test_loop model ps mn ms)"
proof (induction ns arbitrary: st)
  case Nil
  then show ?case by simp
next
  case (Cons n ns)
  show ?case
    by (cases "test_step model ps mn n st") (simp_all add: Cons.IH)
qed

lemma test_loop_ok:
  assumes func: "sigma_arg ps = ''tanh'' \<or> sigma_arg ps = ''sigmoid''"
    and data: "test_data_ok 784 mn" and sh: "shaped hn 784 k model" and k: "0 < k"
  shows "n \<le> n_test mn \<Longrightarrow>
     \<exists>st. test_loop model ps mn [0..<n] \<lparr>ts_total = 0, ts_correct = 0, ts_wrong = 0, ts_figs = []\<rparr> = Inr st
        \<and> test_inv (map (spec_prediction model ps mn) [0..<n]) st"
proof (induction n)
  case 0
  show ?case by (simp add: test_inv_def)
next
  case (Suc n)
  then obtain s where s: "test_loop model ps mn [0..<n] \<lparr>ts_total = 0, ts_correct = 0, ts_wrong = 0, ts_figs = []\<rparr> = Inr s"
    "test_inv (map (spec_prediction model ps mn) [0..<n]) s"
    by auto
  have "n < n_test mn" using Suc.prems by simp
  from test_step_ok [OF func data sh k this s(2)]
  obtain st' where st': "test_step model ps mn n s = Inr st'"
    "test_inv (map (spec_prediction model ps mn) [0..<n] @ [spec_prediction model ps mn n]) st'"
    by blast
  have "test_loop model ps mn [0..<Suc n] \<lparr>ts_total = 0, ts_correct = 0, ts_wrong = 0, ts_figs = []\<rparr> = Inr st'"
    by (simp add: test_loop_append s(1) st'(1))
  with st'(2) show ?case by auto
qed

subsection \<open>The evaluation loop\<close>

lemma spec_matvec_zero:
  assumes "\<forall>i<nrows M. \<forall>j<ncols M. rows M ! i ! j = 0"
  shows "spec_matvec M x = replicate (nrows M) 0"
proof (rule nth_equalityI)
  show "length (spec_matvec M x) = length (replicate (nrows M) (0::real))" by simp
next
  fix i assume "i < length (spec_matvec M x)"
  then have i: "i < nrows M" by simp
  have "(\<Sum>j<ncols M. rows M ! i ! j * x ! j) = 0"
    by (rule sum.neutral) (use assms i in simp)
  with i show "spec_matvec M x ! i = replicate (nrows M) 0 ! i"
    by (simp add: spec_matvec_def)
qed

lemma ex_zero_forward:
  "spec_forward x ex_zero_model ''tanh'' = ([0], [0], [1 / 2, 1 / 2])"
proof -
  have W: "spec_matvec (W ex_zero_model) x = [0]"
    using spec_matvec_zero [of "W ex_zero_model" x]
    by (simp add: ex_zero_model_def nrows_def)
  have C: "spec_matvec (C ex_zero_model) h = [0, 0]" for h
    using spec_matvec_zero [of "C ex_zero_model" h]
    by (simp add: ex_zero_model_def nrows_def less_Suc_eq numeral_2_eq_2)
  have b: "b1 ex_zero_model = [0]" "b2 ex_zero_model = [0, 0]"
    by (simp_all add: ex_zero_model_def)
  have s: "spec_softmax [0, 0] = [1 / 2, 1 / 2]"
    by (simp add: softmax_spec [symmetric] softmax_function_def)
  have v1: "spec_vadd [0] [0] = [0]" and v2: "spec_vadd [0, 0] [0, 0] = [0, 0]"
    by (simp_all add: spec_vadd_def upt_conv_Cons)
  show ?thesis
    by (simp add: spec_forward_def W C b v1 v2 s spec_activate_def Let_def)
qed

lemma ex_argmax: "spec_argmax [1 / 2, 1 / 2] = 0"
proof -
  have "np_argmax [1 / 2, 1 / 2] = Inr (spec_argmax [1 / 2, 1 / 2])"
    by (rule np_argmax_spec) simp
  then show ?thesis by (simp add: np_argmax_def)
qed

lemma ex_predictions:
  "map (spec_prediction ex_zero_model ex_params ex_test) [0..<n_test ex_test]
     = map (\<lambda>y. (ex_image, y, 0)) (y_test ex_test)"
proof -
  have len: "n_test ex_test = 12" "length (y_test ex_test) = 12"
    by (simp_all add: ex_test_def)
  have x: "rows (x_test ex_test) ! n = ex_image" if "n < 12" for n
    using that by (simp add: ex_test_def)
  have "map (spec_prediction ex_zero_model ex_params ex_test) [0..<12]
     = map (\<lambda>n. (ex_image, y_test ex_test ! n, 0)) [0..<12]"
    by (rule map_cong)
       (simp_all add: spec_prediction_def ex_params_def ex_zero_forward ex_argmax x)
  also have "\<dots> = map (\<lambda>y. (ex_image, y, 0)) (y_test ex_test)"
    unfolding len(2) [symmetric] by (rule map_by_index [symmetric])
  finally show ?thesis by (simp add: len)
qed

text \<open>
  C8. On \<open>N\<^sub>2 \<ge> 1\<close> test images of 784 pixels, a well-shaped parameter bundle with \<open>K \<ge> 1\<close>
  classes and one of the two activations, evaluation goes through the test samples
  \<open>0, \<dots>, N\<^sub>2 - 1\<close> in this order, predicts for each the first index of a largest entry
  of the forward distribution, and prints the number of correct predictions divided by
  \<open>N\<^sub>2\<close>. Among the figures it draws, the correct ones are the first five correct samples
  (all of them when there are fewer) and the misclassified ones the first five
  misclassified samples, each in the order met.
\<close>

theorem evaluation_loop:
  assumes "sigma_arg ps = ''tanh'' \<or> sigma_arg ps = ''sigmoid''"
    and "test_data_ok 784 mn" and "shaped hn 784 k model" and "0 < k"
  shows "\<exists>figs. nn_test model ps mn =
           Inr (figs, real (length (filter correct (map (spec_prediction model ps mn) [0..<n_test mn])))
                        / real (n_test mn))
       \<and> filter correct figs
           = take 5 (filter correct (map (spec_prediction model ps mn) [0..<n_test mn]))
       \<and> filter (\<lambda>t. \<not> correct t) figs
           = take 5 (filter (\<lambda>t. \<not> correct t) (map (spec_prediction model ps mn) [0..<n_test mn]))"
proof -
  from test_loop_ok [OF assms, of "n_test mn"]
  obtain st where st: "test_loop model ps mn [0..<n_test mn]
        \<lparr>ts_total = 0, ts_correct = 0, ts_wrong = 0, ts_figs = []\<rparr> = Inr st"
    "test_inv (map (spec_prediction model ps mn) [0..<n_test mn]) st"
    by auto
  have "0 < n_test mn" using assms(2) by (simp add: test_data_ok_def)
  then have "nn_test model ps mn = Inr (ts_figs st, real (ts_total st) / real (n_test mn))"
    by (simp add: nn_test_def st(1))
  with st(2) show ?thesis by (auto simp: test_inv_def)
qed


theorem evaluation_loop_witness:
  "\<exists>figs. nn_test ex_zero_model ex_params ex_test = Inr (figs, 1 / 2)
     \<and> filter correct figs
         = [(ex_image, 0, 0), (ex_image, 0, 0), (ex_image, 0, 0), (ex_image, 0, 0), (ex_image, 0, 0)]
     \<and> filter (\<lambda>t. \<not> correct t) figs
         = [(ex_image, 1, 0), (ex_image, 1, 0), (ex_image, 1, 0), (ex_image, 1, 0), (ex_image, 1, 0)]"
proof -
  have func: "sigma_arg ex_params = ''tanh'' \<or> sigma_arg ex_params = ''sigmoid''"
    by (simp add: ex_params_def)
  have data: "test_data_ok 784 ex_test"
    by (simp add: test_data_ok_def ex_test_def ex_image_def is_mat_def list_all_length)
  have sh: "shaped 1 784 2 ex_zero_model"
    by (simp add: shaped_def ex_zero_model_def is_mat_def)
  have c: "filter correct (map (\<lambda>y. (ex_image, y, 0)) (y_test ex_test))
        = [(ex_image, 0, 0), (ex_image, 0, 0), (ex_image, 0, 0), (ex_image, 0, 0), (ex_image, 0, 0),
           (ex_image, 0, 0)]"
    "filter (\<lambda>t. \<not> correct t) (map (\<lambda>y. (ex_image, y, 0)) (y_test ex_test))
        = [(ex_image, 1, 0), (ex_image, 1, 0), (ex_image, 1, 0), (ex_image, 1, 0), (ex_image, 1, 0),
           (ex_image, 1, 0)]"
    by (simp_all add: ex_test_def correct_def)
  have n: "real (n_test ex_test) = 12" by (simp add: ex_test_def)
  from evaluation_loop [OF func data sh]
  show ?thesis
    unfolding ex_predictions c n by simp
qed

subsection \<open>The range of binary64\<close>

lemma f64_bounds:
  "f64_tiny < 1 / 2 ^ 1022" "(2::real) ^ 1023 < f64_huge" "0 < f64_tiny" "0 < f64_huge"
  "f64_tiny < 1" "1 < f64_huge"
  by (simp_all add: f64_tiny_def f64_huge_def)

lemma f64_round_normal: "f64_normal r \<Longrightarrow> f64_round r = Fin r"
  using f64_bounds by (auto simp: f64_normal_def f64_round_def)

lemma f64_round_between:
  "1 / 2 ^ 1022 \<le> r \<Longrightarrow> r \<le> 2 ^ 1023 \<Longrightarrow> f64_round r = Fin r"
  by (rule f64_round_normal) (simp add: f64_normal_def)

lemma exp_1_ge: "5 / 2 \<le> exp (1::real)"
  using exp_lower_Taylor_quadratic [of "1::real"] by simp

lemma exp_1000_ge: "(2::real) ^ 1075 \<le> exp 1000"
proof -
  have "(2::real) ^ 1075 \<le> 2 ^ 1250" by (rule power_increasing) simp_all
  also have "\<dots> = ((2::real) ^ 5) ^ 250" by (simp flip: power_mult)
  also have "\<dots> \<le> ((5 / 2) ^ 4) ^ 250" by (rule power_mono) (simp_all add: power_divide)
  also have "\<dots> = (5 / 2 :: real) ^ 1000" by (simp flip: power_mult)
  also have "\<dots> \<le> exp 1 ^ 1000" by (rule power_mono [OF exp_1_ge]) simp
  also have "\<dots> = exp (of_nat 1000 * 1)" by (rule exp_of_nat_mult [symmetric])
  finally show ?thesis by simp
qed

lemma f64_exp_1000: "f64_exp 1000 = PInf"
proof -
  have "f64_huge \<le> 2 ^ 1075" by (simp add: f64_huge_def)
  with exp_1000_ge have "f64_huge \<le> exp 1000" by linarith
  then show ?thesis by (simp add: f64_exp_def f64_round_def)
qed

lemma f64_exp_minus_1000: "f64_exp (- 1000) = Fin 0"
proof -
  have "exp (- 1000 :: real) = 1 / exp 1000" by (rule exp_minus')
  also have "\<dots> \<le> 1 / 2 ^ 1075"
    using exp_1000_ge by (intro divide_left_mono) simp_all
  finally have le: "exp (- 1000 :: real) \<le> f64_tiny" by (simp add: f64_tiny_def)
  have pos: "0 < exp (- 1000 :: real)" by simp
  have "\<not> f64_huge \<le> exp (- 1000)" "\<not> exp (- 1000) \<le> - f64_huge"
    using le pos f64_bounds(4-6) by linarith+
  with le pos show ?thesis by (simp add: f64_exp_def f64_round_def)
qed

lemma f64_exp_0: "f64_exp 0 = Fin 1"
  by (simp add: f64_exp_def f64_round_between)

lemma f64_sum_fold:
  "1 / 2 ^ 1022 \<le> a \<Longrightarrow> list_all (\<lambda>x. 0 \<le> x) xs \<Longrightarrow> a + sum_list xs \<le> 2 ^ 1023 \<Longrightarrow>
   foldl f64_add (Fin a) (map Fin xs) = Fin (a + sum_list xs)"
proof (induction xs arbitrary: a)
  case Nil
  then show ?case by simp
next
  case (Cons x xs)
  have x: "0 \<le> x" and rest: "list_all (\<lambda>x. 0 \<le> x) xs" using Cons.prems(2) by simp_all
  have nn: "0 \<le> sum_list xs" using rest by (induction xs) simp_all
  have lo: "1 / 2 ^ 1022 \<le> a + x" using Cons.prems(1) x by linarith
  have hi: "a + x \<le> 2 ^ 1023" using Cons.prems(3) nn by simp
  have step: "f64_round (a + x) = Fin (a + x)"
    using lo hi by (rule f64_round_between)
  have "foldl f64_add (Fin (a + x)) (map Fin xs) = Fin (a + x + sum_list xs)"
    by (rule Cons.IH [OF lo rest]) (use Cons.prems(3) in \<open>simp add: add.assoc\<close>)
  then show ?case by (simp add: step add.assoc)
qed

lemma f64_sum_exp:
  assumes "u \<noteq> []" "list_all (\<lambda>v. 1 / 2 ^ 1022 \<le> exp v) u" "sum_list (map exp u) \<le> 2 ^ 1023"
  shows "f64_sum (map f64_exp u) = Fin (sum_list (map exp u))"
proof -
  obtain v vs where u: "u = v # vs" using assms(1) by (cases u) auto
  have le: "exp w \<le> sum_list (map exp u)" if "w \<in> set u" for w
    using that by (rule exp_le_sum_exp)
  have e: "f64_exp w = Fin (exp w)" if "w \<in> set u" for w
  proof -
    have "1 / 2 ^ 1022 \<le> exp w" using assms(2) that by (simp add: list_all_iff)
    moreover have "exp w \<le> 2 ^ 1023" using le [OF that] assms(3) by linarith
    ultimately show ?thesis by (simp add: f64_exp_def f64_round_between)
  qed
  have ev: "f64_exp v = Fin (exp v)" using e [of v] u by simp
  have mvs: "map f64_exp vs = map Fin (map exp vs)" using e u by simp
  have "foldl f64_add (Fin (exp v)) (map Fin (map exp vs)) = Fin (exp v + sum_list (map exp vs))"
  proof (rule f64_sum_fold)
    show "1 / 2 ^ 1022 \<le> exp v" using assms(2) u by simp
    show "list_all (\<lambda>x. 0 \<le> x) (map exp vs)" by (simp add: list_all_iff)
    show "exp v + sum_list (map exp vs) \<le> 2 ^ 1023" using assms(3) u by simp
  qed
  then show ?thesis by (simp add: f64_sum_def u ev mvs del: map_map)
qed

text \<open>
  C6, as amended. For every non-empty vector \<open>u\<close> on which the exponentials, their sum and
  the quotients stay well inside the range of binary64, the output of softmax is the
  vector of the numbers \<open>exp(u\<^sub>i) / \<Sum>\<^sub>j exp(u\<^sub>j)\<close>, each of them in \<open>[0, 1]\<close>, and they sum to 1
  (up to the rounding that is not modelled).
\<close>

theorem softmax_within_range:
  assumes "u \<noteq> []" and "softmax_in_range u"
  shows "softmax_function64 u = map Fin (softmax_function u)
    \<and> length (softmax_function u) = length u
    \<and> (\<forall>i<length u. softmax_function u ! i = exp (u ! i) / (\<Sum>j<length u. exp (u ! j)))
    \<and> (\<forall>i<length u. 0 \<le> softmax_function u ! i \<and> softmax_function u ! i \<le> 1)
    \<and> sum_list (softmax_function u) = 1"
proof -
  let ?S = "sum_list (map exp u)"
  have r: "list_all (\<lambda>v. 1 / 2 ^ 1022 \<le> exp v) u" "?S \<le> 2 ^ 1023"
    "list_all (\<lambda>v. 1 / 2 ^ 1022 \<le> exp v / ?S) u"
    using assms(2) by (simp_all add: softmax_in_range_def)
  have pos: "0 < ?S" using assms(1) by (rule sum_exp_pos)
  have s: "f64_sum (map f64_exp u) = Fin ?S"
    using assms(1) r(1,2) by (rule f64_sum_exp)
  have entry: "f64_div (f64_exp v) (Fin ?S) = Fin (exp v / ?S)" if "v \<in> set u" for v
  proof -
    have lo: "1 / 2 ^ 1022 \<le> exp v" "1 / 2 ^ 1022 \<le> exp v / ?S"
      using r(1,3) that by (simp_all add: list_all_iff)
    have le: "exp v \<le> ?S" using that by (rule exp_le_sum_exp)
    then have hi: "exp v \<le> 2 ^ 1023" using r(2) by linarith
    have e: "f64_exp v = Fin (exp v)"
      using lo(1) hi by (simp add: f64_exp_def f64_round_between)
    have "exp v / ?S \<le> 1" using le pos by simp
    then have "exp v / ?S \<le> 2 ^ 1023"
      by (rule order_trans) simp
    with lo(2) have "f64_round (exp v / ?S) = Fin (exp v / ?S)"
      by (rule f64_round_between)
    with pos show ?thesis by (simp add: e)
  qed
  have "softmax_function64 u = map Fin (softmax_function u)"
    using entry by (simp add: softmax_function64_def softmax_function_def s)
  with softmax_exact [OF assms(1)] show ?thesis by blast
qed

theorem softmax_within_range_witness:
  "softmax_function64 [0, 0] = [Fin (1 / 2), Fin (1 / 2)]
   \<and> softmax_function [0, 0] = [1 / 2, 1 / 2] \<and> sum_list (softmax_function [0, 0]) = 1"
proof -
  have ne: "[0, 0::real] \<noteq> []" by simp
  have r: "softmax_in_range [0, 0]" by (simp add: softmax_in_range_def)
  from softmax_within_range [OF ne r] show ?thesis
    by (simp add: softmax_function_def)
qed

text \<open>
  C6 as stated fails: the code does not subtract the maximum, so at \<open>[1000, 0]\<close> the
  exponential overflows and the output is \<open>[nan, 0]\<close>; at \<open>[-1000, -1000]\<close> both
  exponentials are zero and the output is \<open>[nan, nan]\<close>; and the output for the empty
  vector is empty and sums to 0.
\<close>

theorem softmax_counterexample:
  "softmax_function64 [1000, 0] = [NaN, Fin 0]
   \<and> softmax_function64 [- 1000, - 1000] = [NaN, NaN]
   \<and> softmax_function64 [] = [] \<and> f64_sum (softmax_function64 []) = Fin 0"
  by (simp add: softmax_function64_def f64_sum_def f64_exp_1000 f64_exp_0 f64_exp_minus_1000
        f64_round_normal f64_normal_def)

lemma sigma64_within_range:
  assumes "list_all sigmoid_in_range z"
  shows "sigma64 z ''sigmoid'' = Inr (map (\<lambda>v. Fin (logistic v)) z)"
    and "d_sigma64 z ''sigmoid'' = Inr (map (\<lambda>v. Fin (logistic v * (1 - logistic v))) z)"
proof -
  have one: "f64_div (f64_exp v) (f64_add (Fin 1) (f64_exp v)) = Fin (logistic v)
      \<and> f64_mul (Fin (logistic v)) (f64_sub (Fin 1) (Fin (logistic v)))
          = Fin (logistic v * (1 - logistic v))"
    if "v \<in> set z" for v
  proof -
    have r: "f64_normal (exp v)" "f64_normal (1 + exp v)" "f64_normal (logistic v)"
      "f64_normal (1 - logistic v)" "f64_normal (logistic v * (1 - logistic v))"
      using assms that by (simp_all add: list_all_iff sigmoid_in_range_def logistic_alt)
    have nz: "1 + exp v \<noteq> 0" using exp_gt_zero [of v] by linarith
    have "f64_div (f64_exp v) (f64_add (Fin 1) (f64_exp v)) = Fin (logistic v)"
      using r(1-3) nz by (simp add: f64_exp_def f64_round_normal logistic_alt)
    moreover have "f64_mul (Fin (logistic v)) (f64_sub (Fin 1) (Fin (logistic v)))
          = Fin (logistic v * (1 - logistic v))"
      using r(4,5) by (simp add: f64_sub_def f64_round_normal)
    ultimately show ?thesis by simp
  qed
  show "sigma64 z ''sigmoid'' = Inr (map (\<lambda>v. Fin (logistic v)) z)"
    using one by (simp add: sigma64_def)
  show "d_sigma64 z ''sigmoid'' = Inr (map (\<lambda>v. Fin (logistic v * (1 - logistic v))) z)"
    using one by (simp add: d_sigma64_def)
qed

lemma tanh64_within_range:
  assumes "list_all tanh_in_range z"
  shows "sigma64 z ''tanh'' = Inr (map (\<lambda>v. Fin (tanh v)) z)"
    and "d_sigma64 z ''tanh'' = Inr (map (\<lambda>v. Fin (1 - (tanh v)\<^sup>2)) z)"
proof -
  have one: "f64_tanh v = Fin (tanh v)
      \<and> f64_sub (Fin 1) (f64_mul (Fin (tanh v)) (Fin (tanh v))) = Fin (1 - (tanh v)\<^sup>2)"
    if "v \<in> set z" for v
  proof -
    have r: "f64_normal (tanh v)" "f64_normal (tanh v * tanh v)" "f64_normal (1 - tanh v * tanh v)"
      using assms that by (simp_all add: list_all_iff tanh_in_range_def)
    then show ?thesis
      by (simp add: f64_tanh_def f64_sub_def f64_round_normal power2_eq_square)
  qed
  show "sigma64 z ''tanh'' = Inr (map (\<lambda>v. Fin (tanh v)) z)"
    using one by (simp add: sigma64_def)
  show "d_sigma64 z ''tanh'' = Inr (map (\<lambda>v. Fin (1 - (tanh v)\<^sup>2)) z)"
    using one by (simp add: d_sigma64_def)
qed

lemma sigma64_overflow:
  assumes "f64_huge \<le> exp v"
  shows "sigma64 [v] ''sigmoid'' = Inr [NaN]" and "d_sigma64 [v] ''sigmoid'' = Inr [NaN]"
proof -
  have e: "f64_exp v = PInf" using assms by (simp add: f64_exp_def f64_round_def)
  show "sigma64 [v] ''sigmoid'' = Inr [NaN]" by (simp add: sigma64_def e)
  show "d_sigma64 [v] ''sigmoid'' = Inr [NaN]" by (simp add: d_sigma64_def e f64_sub_def)
qed

text \<open>
  C7, as amended. Applied entry by entry and in exact arithmetic: for \<^verbatim>\<open>tanh\<close> the
  activation is \<open>tanh z\<close> and its derivative is computed as \<open>1 - tanh(z)\<^sup>2\<close>; for
  \<^verbatim>\<open>sigmoid\<close> the activation, computed as \<open>exp(z)/(1+exp(z))\<close>, equals \<open>1/(1+exp(-z))\<close>
  and its derivative is computed as \<open>a(1-a)\<close> for \<open>a\<close> the activation's own value; in both
  cases this is the derivative of the activation. In binary64 the code returns these
  values where every intermediate result stays well inside the range, and where
  \<open>exp(z)\<close> overflows both sigmoid functions return \<^verbatim>\<open>nan\<close>.
\<close>

theorem activation_formulas:
  "sigma z ''tanh'' = Inr (map tanh z)
   \<and> d_sigma z ''tanh'' = Inr (map (\<lambda>a. 1 - a\<^sup>2) (map tanh z))
   \<and> sigma z ''sigmoid'' = Inr (map logistic z)
   \<and> d_sigma z ''sigmoid'' = Inr (map (\<lambda>a. a * (1 - a)) (map logistic z))
   \<and> (tanh has_real_derivative (1 - (tanh v)\<^sup>2)) (at v)
   \<and> (logistic has_real_derivative (logistic v * (1 - logistic v))) (at v)
   \<and> (list_all tanh_in_range z \<longrightarrow>
        sigma64 z ''tanh'' = Inr (map (\<lambda>v. Fin (tanh v)) z)
        \<and> d_sigma64 z ''tanh'' = Inr (map (\<lambda>v. Fin (1 - (tanh v)\<^sup>2)) z))
   \<and> (list_all sigmoid_in_range z \<longrightarrow>
        sigma64 z ''sigmoid'' = Inr (map (\<lambda>v. Fin (logistic v)) z)
        \<and> d_sigma64 z ''sigmoid'' = Inr (map (\<lambda>v. Fin (logistic v * (1 - logistic v))) z))
   \<and> (f64_huge \<le> exp v \<longrightarrow>
        sigma64 [v] ''sigmoid'' = Inr [NaN] \<and> d_sigma64 [v] ''sigmoid'' = Inr [NaN])"
  using activation_exact [of z v] tanh64_within_range [of z] sigma64_within_range [of z]
    sigma64_overflow [of v]
  by blast

theorem activation_formulas_witness:
  "sigma [0] ''sigmoid'' = Inr [1 / 2] \<and> sigma64 [0] ''sigmoid'' = Inr [Fin (1 / 2)]
   \<and> d_sigma64 [0] ''sigmoid'' = Inr [Fin (1 / 4)]
   \<and> sigma64 [0] ''tanh'' = Inr [Fin 0] \<and> d_sigma64 [0] ''tanh'' = Inr [Fin 1]
   \<and> sigma64 [1000] ''sigmoid'' = Inr [NaN] \<and> d_sigma64 [1000] ''sigmoid'' = Inr [NaN]"
proof -
  have l: "logistic 0 = 1 / 2" by (simp add: logistic_def)
  have t: "list_all tanh_in_range [0]"
    by (simp add: tanh_in_range_def f64_normal_def)
  have s: "list_all sigmoid_in_range [0]"
    by (simp add: sigmoid_in_range_def f64_normal_def)
  have "f64_huge \<le> 2 ^ 1075" by (simp add: f64_huge_def)
  with exp_1000_ge have o: "f64_huge \<le> exp 1000" by linarith
  from activation_formulas [of "[0]" 0] t s activation_formulas [of "[1000]" 1000] o
  show ?thesis by (simp add: l)
qed

text \<open>
  C7 as stated fails: at \<open>z = 1000\<close> the code's \<open>exp(z)/(1+exp(z))\<close> is \<open>inf/inf\<close>, that
  is \<^verbatim>\<open>nan\<close>, while \<open>1/(1+exp(-z))\<close> evaluates to 1; the derivative is \<^verbatim>\<open>nan\<close> as well.
\<close>

theorem sigmoid_counterexample:
  "sigma64 [1000] ''sigmoid'' = Inr [NaN]
   \<and> f64_div (Fin 1) (f64_add (Fin 1) (f64_exp (- 1000))) = Fin 1
   \<and> d_sigma64 [1000] ''sigmoid'' = Inr [NaN]"
  by (simp add: sigma64_def d_sigma64_def f64_sub_def f64_exp_1000 f64_exp_minus_1000
        f64_round_normal f64_normal_def)

end
